theory Spec2Isabelle
  imports Main
begin

section \<open>Strings\<close>

text \<open>
  A JavaScript string is modelled as the list of its code points. Literals of the
  source are written with \<open>ustr\<close>. The functions below are the string operations of
  the standard library that the program calls.
\<close>

type_synonym ustring = "nat list"

definition ustr :: "string \<Rightarrow> ustring" where
  "ustr s = map of_char s"

definition startsWith :: "ustring \<Rightarrow> ustring \<Rightarrow> bool" where
  "startsWith p s = (take (length p) s = p)"

text \<open>\<open>s.split(c)\<close> for a separator of one character.\<close>

fun split_on :: "nat \<Rightarrow> ustring \<Rightarrow> ustring list" where
  "split_on c [] = [[]]"
| "split_on c (x # xs) =
     (if x = c then [] # split_on c xs
      else (case split_on c xs of
              [] \<Rightarrow> [[x]]
            | y # ys \<Rightarrow> (x # y) # ys))"

text \<open>\<open>parts.join(sep)\<close>.\<close>

fun join_with :: "ustring \<Rightarrow> ustring list \<Rightarrow> ustring" where
  "join_with sep [] = []"
| "join_with sep [x] = x"
| "join_with sep (x # y # ys) = x @ sep @ join_with sep (y # ys)"

text \<open>
  White space and line terminators of ECMAScript, which \<open>trim\<close> removes at both ends.
\<close>

definition isWhiteSpace :: "nat \<Rightarrow> bool" where
  "isWhiteSpace c =
     (c = 0x09 \<or> c = 0x0A \<or> c = 0x0B \<or> c = 0x0C \<or> c = 0x0D \<or> c = 0x20 \<or> c = 0xA0
      \<or> c = 0x1680 \<or> (0x2000 \<le> c \<and> c \<le> 0x200A) \<or> c = 0x2028 \<or> c = 0x2029
      \<or> c = 0x202F \<or> c = 0x205F \<or> c = 0x3000 \<or> c = 0xFEFF)"

definition trim :: "ustring \<Rightarrow> ustring" where
  "trim s = rev (dropWhile isWhiteSpace (rev (dropWhile isWhiteSpace s)))"

text \<open>
  \<open>toLowerCase\<close> and \<open>normalize('NFC')\<close> are given by the Unicode tables of the
  runtime. The program is modelled for any such pair of functions.
\<close>

record unicode_tables =
  toLowerCase :: "ustring \<Rightarrow> ustring"
  normalizeNFC :: "ustring \<Rightarrow> ustring"

text \<open>
  The tables on the strings whose code points are all below U+0100 (ASCII and
  Latin-1): there \<open>toLowerCase\<close> maps each capital letter to the letter 32 places
  above and leaves the rest, and every such string is in NFC already. The examples
  below use these tables, on strings of that range only.
\<close>

definition lowerChar :: "nat \<Rightarrow> nat" where
  "lowerChar c =
     (if (0x41 \<le> c \<and> c \<le> 0x5A) \<or> (0xC0 \<le> c \<and> c \<le> 0xDE \<and> c \<noteq> 0xD7) then c + 32 else c)"

definition latin1 :: unicode_tables where
  "latin1 = \<lparr>toLowerCase = map lowerChar, normalizeNFC = (\<lambda>s. s)\<rparr>"

text \<open>\<open>s.length\<close>: the number of UTF-16 code units of a string.\<close>

definition utf16_length :: "ustring \<Rightarrow> nat" where
  "utf16_length s = sum_list (map (\<lambda>c. if c \<ge> 0x10000 then 2 else 1) s)"

section \<open>punycode.toUnicode (the punycode package, version 2.1)\<close>

text \<open>
  \<open>normalizeDomain\<close> calls \<open>punycode.toUnicode\<close>. Its decoder works on JavaScript
  numbers; they are integers here, with the decoder's own overflow checks, and a thrown
  RangeError is \<open>None\<close>.
\<close>

definition maxInt :: int where "maxInt = 2147483647"

definition basicToDigit :: "int \<Rightarrow> int" where
  "basicToDigit codePoint =
     (if codePoint - 0x30 < 0x0A then codePoint - 0x16
      else if codePoint - 0x41 < 0x1A then codePoint - 0x41
      else if codePoint - 0x61 < 0x1A then codePoint - 0x61
      else 36)"

definition toInt32 :: "int \<Rightarrow> int" where
  "toInt32 x = (x + 2 ^ 31) mod 2 ^ 32 - 2 ^ 31"

text \<open>The loop of \<open>adapt\<close>: \<open>for (; delta > 455; k += base) delta = floor(delta / 35)\<close>.\<close>

function adapt_loop :: "int \<Rightarrow> int \<Rightarrow> int \<times> int" where
  "adapt_loop delta k = (if delta > 455 then adapt_loop (delta div 35) (k + 36) else (delta, k))"
  by pat_completeness auto
termination
  by (relation "measure (\<lambda>(delta, k). nat delta)") auto

declare adapt_loop.simps [simp del]

text \<open>
  \<open>adapt\<close> returns \<open>floor(k + 36 * delta / (delta + skew))\<close>, a floating-point
  division: when \<open>delta + skew\<close> is zero the quotient is minus infinity, which is \<open>None\<close>.
\<close>

definition adapt :: "int \<Rightarrow> int \<Rightarrow> bool \<Rightarrow> int option" where
  "adapt delta numPoints firstTime =
     (let d1 = (if firstTime then delta div 700 else toInt32 delta div 2);
          d2 = d1 + d1 div numPoints;
          (d, k) = adapt_loop d2 0
      in if d + 38 = 0 then None else Some (k + (36 * d) div (d + 38)))"

text \<open>The threshold \<open>t\<close> for the digit at position \<open>k\<close>; a bias of minus infinity gives \<open>tMax\<close>.\<close>

definition threshold :: "int \<Rightarrow> int option \<Rightarrow> int" where
  "threshold k bias =
     (case bias of
        None \<Rightarrow> 26
      | Some b \<Rightarrow> (if k \<le> b then 1 else if k \<ge> b + 26 then 26 else k - b))"

text \<open>
  The inner loop of \<open>decode\<close>, which reads one generalised variable-length integer:
  it returns the new \<open>i\<close> and the new \<open>index\<close>, or \<open>None\<close> where the source throws.
\<close>

function decode_digits ::
  "ustring \<Rightarrow> nat \<Rightarrow> int \<Rightarrow> int \<Rightarrow> int \<Rightarrow> int option \<Rightarrow> (int \<times> nat) option" where
  "decode_digits input index i w k bias =
     (if index \<ge> length input then None
      else
        let digit = basicToDigit (int (input ! index));
            index' = Suc index
        in if digit \<ge> 36 \<or> digit > (maxInt - i) div w then None
           else
             let i' = i + digit * w;
                 t = threshold k bias
             in if digit < t then Some (i', index')
                else if w > maxInt div (36 - t) then None
                else decode_digits input index' i' (w * (36 - t)) (k + 36) bias)"
  by pat_completeness auto
termination
  by (relation "measure (\<lambda>(input, index, i, w, k, bias). length input - index)") auto

declare decode_digits.simps [simp del]

lemma decode_digits_index:
  "decode_digits input index i w k bias = Some (i', index') \<Longrightarrow> index < index'"
proof (induction input index i w k bias rule: decode_digits.induct)
  case (1 input index i w k bias)
  let ?digit = "basicToDigit (int (input ! index))"
  let ?t = "threshold k bias"
  have "decode_digits input index i w k bias =
    (if index \<ge> length input then None
      else if ?digit \<ge> 36 \<or> ?digit > (maxInt - i) div w then None
      else if ?digit < ?t then Some (i + ?digit * w, Suc index)
      else if w > maxInt div (36 - ?t) then None
      else decode_digits input (Suc index) (i + ?digit * w) (w * (36 - ?t)) (k + 36) bias)"
    by (subst decode_digits.simps) (simp add: Let_def)
  with "1.prems" have unfolded:
    "(if index \<ge> length input then None
      else if ?digit \<ge> 36 \<or> ?digit > (maxInt - i) div w then None
      else if ?digit < ?t then Some (i + ?digit * w, Suc index)
      else if w > maxInt div (36 - ?t) then None
      else decode_digits input (Suc index) (i + ?digit * w) (w * (36 - ?t)) (k + 36) bias)
     = Some (i', index')"
    by simp
  show ?case
  proof (cases "?digit < ?t")
    case True
    with unfolded show ?thesis by (simp split: if_splits)
  next
    case False
    with unfolded have rec:
      "decode_digits input (Suc index) (i + ?digit * w) (w * (36 - ?t)) (k + 36) bias
       = Some (i', index')"
      and guards: "\<not> index \<ge> length input" "\<not> (?digit \<ge> 36 \<or> ?digit > (maxInt - i) div w)"
        "\<not> w > maxInt div (36 - ?t)"
      by (simp_all split: if_splits)
    from "1.IH" [OF guards(1) refl refl guards(2) refl refl False guards(3)] rec
    have "Suc index < index'" by simp
    then show ?thesis by simp
  qed
qed

text \<open>\<open>i %= out\<close>: the remainder of JavaScript has the sign of the dividend.\<close>

definition js_rem :: "int \<Rightarrow> int \<Rightarrow> int" where
  "js_rem a b = sgn a * (\<bar>a\<bar> mod \<bar>b\<bar>)"

text \<open>
  \<open>output.splice(i, 0, n)\<close>: a negative start counts from the end, a start beyond the
  end is the end.
\<close>

definition splice_insert :: "int \<Rightarrow> int \<Rightarrow> int list \<Rightarrow> int list" where
  "splice_insert i n output =
     (let len = int (length output);
          p = (if i < 0 then max (len + i) 0 else min i len)
      in take (nat p) output @ [n] @ drop (nat p) output)"

text \<open>The main loop of \<open>decode\<close>.\<close>

function decode_loop ::
  "ustring \<Rightarrow> nat \<Rightarrow> int \<Rightarrow> int \<Rightarrow> int option \<Rightarrow> int list \<Rightarrow> int list option" where
  "decode_loop input index i n bias output =
     (if index < length input then
        (case decode_digits input index i 1 36 bias of
           None \<Rightarrow> None
         | Some (i', index') \<Rightarrow>
             (let out = int (length output) + 1;
                  bias' = adapt (i' - i) out (i = 0)
              in if i' div out > maxInt - n then None
                 else
                   let n' = n + i' div out;
                       i'' = js_rem i' out
                   in decode_loop input index' (i'' + 1) n' bias' (splice_insert i'' n' output)))
      else Some output)"
  by pat_completeness auto
termination
proof (relation "measure (\<lambda>(input, index, i, n, bias, output). length input - index)")
  show "wf (measure (\<lambda>(input, index, i, n, bias, output). length input - index))"
    by simp
next
  fix input :: ustring and index :: nat and i n :: int and bias :: "int option"
    and outp :: "int list" and x2 :: "int \<times> nat" and x y xa xb xc xd
  assume "index < length input"
    and "decode_digits input index i 1 36 bias = Some x2"
    and "(x, y) = x2"
  then show "((input, y, xc + 1, xb, xa, splice_insert xc xb outp),
              input, index, i, n, bias, outp)
             \<in> measure (\<lambda>(input, index, i, n, bias, outp). length input - index)"
  proof -
    assume a: "index < length input" "decode_digits input index i 1 36 bias = Some x2" "(x, y) = x2"
    from a(2,3) have "decode_digits input index i 1 36 bias = Some (x, y)" by simp
    then have "index < y" by (rule decode_digits_index)
    with a(1) show ?thesis by simp
  qed
qed

declare decode_loop.simps [simp del]

text \<open>\<open>input.lastIndexOf('-')\<close>, with the source's \<open>if (basic < 0) basic = 0\<close>.\<close>

definition lastDelimiter :: "ustring \<Rightarrow> nat" where
  "lastDelimiter input =
     (case dropWhile (\<lambda>c. c \<noteq> 0x2D) (rev input) of
        [] \<Rightarrow> 0
      | _ # rest \<Rightarrow> length rest)"

text \<open>
  \<open>decode\<close>: the basic code points before the last delimiter are copied (one of them
  at or above 0x80 throws), the rest is decoded, and \<open>String.fromCodePoint\<close> throws on
  a result outside the code points.
\<close>

definition decode :: "ustring \<Rightarrow> ustring option" where
  "decode input =
     (let basic = lastDelimiter input;
          prefix = take basic input
      in if list_ex (\<lambda>c. c \<ge> 0x80) prefix then None
         else
           (case decode_loop input (if basic > 0 then basic + 1 else 0) 0 128 (Some 72)
                   (map int prefix) of
              None \<Rightarrow> None
            | Some output \<Rightarrow>
                (if list_all (\<lambda>c. 0 \<le> c \<and> c \<le> 0x10FFFF) output then Some (map nat output)
                 else None)))"

text \<open>The separators that \<open>mapDomain\<close> replaces by a full stop.\<close>

definition isSeparator :: "nat \<Rightarrow> bool" where
  "isSeparator c = (c = 0x2E \<or> c = 0x3002 \<or> c = 0xFF0E \<or> c = 0xFF61)"

text \<open>All labels are mapped; the first one that throws makes the whole call throw.\<close>

fun map_labels :: "(ustring \<Rightarrow> ustring option) \<Rightarrow> ustring list \<Rightarrow> ustring list option" where
  "map_labels f [] = Some []"
| "map_labels f (l # ls) =
     (case f l of
        None \<Rightarrow> None
      | Some l' \<Rightarrow> (case map_labels f ls of None \<Rightarrow> None | Some ls' \<Rightarrow> Some (l' # ls')))"

definition mapDomain :: "ustring \<Rightarrow> (ustring \<Rightarrow> ustring option) \<Rightarrow> ustring option" where
  "mapDomain string fn =
     (let parts = split_on 0x40 string;
          result = (if length parts > 1 then hd parts @ [0x40] else []);
          string' = (if length parts > 1 then parts ! 1 else string);
          labels = split_on 0x2E (map (\<lambda>c. if isSeparator c then 0x2E else c) string')
      in case map_labels fn labels of
           None \<Rightarrow> None
         | Some encoded \<Rightarrow> Some (result @ join_with [0x2E] encoded))"

definition toUnicode :: "unicode_tables \<Rightarrow> ustring \<Rightarrow> ustring option" where
  "toUnicode u input =
     mapDomain input
       (\<lambda>string. if startsWith (ustr ''xn--'') string
                 then decode (toLowerCase u (drop 4 string)) else Some string)"

section \<open>tools.js\<close>

text \<open>
  \<open>normalizeDomain(domain)\<close>: the argument is a string (the source's \<open>domain || ''\<close>
  turns a missing one into the empty string). An exception of the decoder is caught
  and leaves the lower-cased, trimmed input.
\<close>

definition normalizeDomain :: "unicode_tables \<Rightarrow> ustring \<Rightarrow> ustring" where
  "normalizeDomain u domain =
     (let domain1 = trim (toLowerCase u domain)
      in if startsWith (ustr ''xn--'') domain1 then
           (case toUnicode u domain1 of
              None \<Rightarrow> domain1
            | Some x \<Rightarrow> trim (toLowerCase u (normalizeNFC u x)))
         else domain1)"

section \<open>Values, errors and the key-value store\<close>

text \<open>
  The values the program handles. Objects are association lists of their own
  properties in insertion order; a \<open>Date\<close> is its time in milliseconds; \<open>Native\<close> is
  an object or function of the runtime, by name.
\<close>

datatype jsval =
    Undefined
  | Null
  | JBool bool
  | Num int
  | Str ustring
  | Buf "nat list"
  | Date int
  | Arr "jsval list"
  | Obj "(ustring \<times> jsval) list"
  | Native ustring

fun truthy :: "jsval \<Rightarrow> bool" where
  "truthy Undefined = False"
| "truthy Null = False"
| "truthy (JBool b) = b"
| "truthy (Num n) = (n \<noteq> 0)"
| "truthy (Str s) = (s \<noteq> [])"
| "truthy (Buf b) = True"
| "truthy (Date d) = True"
| "truthy (Arr xs) = True"
| "truthy (Obj kvs) = True"
| "truthy (Native n) = True"

text \<open>Whether a value is an object (or a function), and not \<open>null\<close>.\<close>

fun is_object :: "jsval \<Rightarrow> bool" where
  "is_object (Buf b) = True"
| "is_object (Date d) = True"
| "is_object (Arr xs) = True"
| "is_object (Obj kvs) = True"
| "is_object (Native n) = True"
| "is_object v = False"

text \<open>
  Writing an own property: an existing key keeps its place, a new one goes to the end.
\<close>

fun put_prop :: "(ustring \<times> jsval) list \<Rightarrow> ustring \<Rightarrow> jsval \<Rightarrow> (ustring \<times> jsval) list" where
  "put_prop [] k v = [(k, v)]"
| "put_prop ((k', v') # kvs) k v =
     (if k' = k then (k, v) # kvs else (k', v') # put_prop kvs k v)"

text \<open>
  \<open>o[k] = v\<close> with a computed key, on an object that inherits from
  \<open>Object.prototype\<close>: for the key \<open>__proto__\<close> the assignment goes to the inherited
  setter, which changes the prototype (or does nothing) and makes no own property,
  unless the object has an own property of that name already.
\<close>

definition proto_key :: ustring where
  "proto_key = ustr ''__proto__''"

definition set_prop :: "(ustring \<times> jsval) list \<Rightarrow> ustring \<Rightarrow> jsval \<Rightarrow> (ustring \<times> jsval) list" where
  "set_prop kvs k v =
     (if k = proto_key \<and> map_of kvs proto_key = None then kvs else put_prop kvs k v)"

definition has_prop :: "(ustring \<times> jsval) list \<Rightarrow> ustring \<Rightarrow> bool" where
  "has_prop kvs k = (map_of kvs k \<noteq> None)"

definition del_prop :: "(ustring \<times> jsval) list \<Rightarrow> ustring \<Rightarrow> (ustring \<times> jsval) list" where
  "del_prop kvs k = filter (\<lambda>kv. fst kv \<noteq> k) kvs"

text \<open>
  \<open>v.k\<close> for a property name that the source writes out (none of them is a property
  of \<open>Object.prototype\<close>), and \<open>o[key]\<close> for an own key of \<open>o\<close>, on a value that
  is not null or undefined.
\<close>

definition get_prop :: "jsval \<Rightarrow> ustring \<Rightarrow> jsval" where
  "get_prop v k =
     (case v of
        Obj kvs \<Rightarrow> (case map_of kvs k of None \<Rightarrow> Undefined | Some x \<Rightarrow> x)
      | _ \<Rightarrow> Undefined)"

text \<open>The own properties of a value: those of an object, none otherwise.\<close>

definition props_of :: "jsval \<Rightarrow> (ustring \<times> jsval) list" where
  "props_of v = (case v of Obj kvs \<Rightarrow> kvs | _ \<Rightarrow> [])"

text \<open>
  \<open>Object.assign(target, source)\<close> on the own properties of two objects; it writes
  each property of the source as an assignment does.
\<close>

definition assign :: "(ustring \<times> jsval) list \<Rightarrow> (ustring \<times> jsval) list \<Rightarrow> (ustring \<times> jsval) list" where
  "assign target source = foldl (\<lambda>acc kv. set_prop acc (fst kv) (snd kv)) target source"

text \<open>
  A thrown \<open>Error\<close>, with the two properties the program attaches: \<open>err.code\<close> and
  \<open>err.responseCode\<close> (\<open>None\<close> where the property was never set).
\<close>

record jserror =
  message :: ustring
  code :: "ustring option"
  responseCode :: "nat option"

text \<open>
  A string value in Redis is either bytes that the program wrote (of the codec's wire
  type \<open>'b\<close>) or a decimal integer, which is what \<open>SET key 1\<close> and \<open>HINCRBY\<close> leave.
  A key holds a string value or a hash, which maps fields to string values.
\<close>

datatype 'b rvalue = Blob 'b | Counter int

datatype 'b rdata = StringValue "'b rvalue" | HashValue "ustring \<Rightarrow> 'b rvalue option"

text \<open>
  The state that the operations share: the connection (\<open>online\<close>), the one keyspace
  of the server (what each key holds, and the time in milliseconds at which it
  expires, if any), the clock in milliseconds, and the number of orders placed with
  the CA (calls of \<open>acme.certificates.create\<close>).
\<close>

record 'b world =
  online :: bool
  keyspace :: "ustring \<Rightarrow> ('b rdata \<times> int option) option"
  clock :: int
  orders :: nat

type_synonym ('a, 'b) res = "(jserror + 'a) \<times> 'b world"

definition bindR :: "('a, 'b) res \<Rightarrow> ('a \<Rightarrow> 'b world \<Rightarrow> ('c, 'b) res) \<Rightarrow> ('c, 'b) res" where
  "bindR m f = (case m of (Inl e, w) \<Rightarrow> (Inl e, w) | (Inr a, w) \<Rightarrow> f a w)"

text \<open>What a key holds, if it is there and its expiry time is not reached.\<close>

definition entry :: "'b world \<Rightarrow> ustring \<Rightarrow> 'b rdata option" where
  "entry s key =
     (case keyspace s key of
        None \<Rightarrow> None
      | Some (d, None) \<Rightarrow> Some d
      | Some (d, Some t) \<Rightarrow> (if clock s < t then Some d else None))"

text \<open>The expiry time to keep when a key that is there is written to.\<close>

definition expiry :: "'b world \<Rightarrow> ustring \<Rightarrow> int option" where
  "expiry s key =
     (case entry s key of
        None \<Rightarrow> None
      | Some d \<Rightarrow> (case keyspace s key of None \<Rightarrow> None | Some (d', t) \<Rightarrow> t))"

text \<open>The fields of the hash at a key (none if no hash is there).\<close>

definition hashes :: "'b world \<Rightarrow> ustring \<Rightarrow> ustring \<Rightarrow> 'b rvalue option" where
  "hashes s key field = (case entry s key of Some (HashValue h) \<Rightarrow> h field | _ \<Rightarrow> None)"

text \<open>The flat (string) value stored at a key, with its expiry time.\<close>

definition strings :: "'b world \<Rightarrow> ustring \<Rightarrow> ('b rvalue \<times> int option) option" where
  "strings s key =
     (case keyspace s key of Some (StringValue v, t) \<Rightarrow> Some (v, t) | _ \<Rightarrow> None)"

text \<open>A flat key is there until its expiry time is reached.\<close>

definition live :: "'b world \<Rightarrow> ustring \<Rightarrow> 'b rvalue option" where
  "live s key =
     (case strings s key of
        None \<Rightarrow> None
      | Some (v, None) \<Rightarrow> Some v
      | Some (v, Some t) \<Rightarrow> (if clock s < t then Some v else None))"

subsection \<open>The Redis commands the program issues\<close>

text \<open>
  Every command is rejected with a transport error while the connection is down. A
  command with an empty argument list is rejected by the server, and so is a hash
  command on a key that holds a string and \<open>GET\<close> on a key that holds a hash.
\<close>

definition transport_error :: jserror where
  "transport_error = \<lparr>message = ustr ''Connection is closed.'', code = None, responseCode = None\<rparr>"

definition arity_error :: jserror where
  "arity_error = \<lparr>message = ustr ''ERR wrong number of arguments'', code = None, responseCode = None\<rparr>"

definition type_error :: jserror where
  "type_error = \<lparr>message = ustr ''ERR hash value is not an integer'', code = None, responseCode = None\<rparr>"

definition wrongtype_error :: jserror where
  "wrongtype_error =
     \<lparr>message = ustr ''WRONGTYPE Operation against a key holding the wrong kind of value'',
      code = None, responseCode = None\<rparr>"

definition holds_string :: "'b world \<Rightarrow> ustring \<Rightarrow> bool" where
  "holds_string s key = (case entry s key of Some (StringValue v) \<Rightarrow> True | _ \<Rightarrow> False)"

definition holds_hash :: "'b world \<Rightarrow> ustring \<Rightarrow> bool" where
  "holds_hash s key = (case entry s key of Some (HashValue h) \<Rightarrow> True | _ \<Rightarrow> False)"

definition hexists :: "'b world \<Rightarrow> ustring \<Rightarrow> ustring \<Rightarrow> jserror + bool" where
  "hexists s key field =
     (if \<not> online s then Inl transport_error
      else if holds_string s key then Inl wrongtype_error
      else Inr (hashes s key field \<noteq> None))"

definition hget :: "'b world \<Rightarrow> ustring \<Rightarrow> ustring \<Rightarrow> jserror + 'b rvalue option" where
  "hget s key field =
     (if \<not> online s then Inl transport_error
      else if holds_string s key then Inl wrongtype_error
      else Inr (hashes s key field))"

definition hmgetBuffer :: "'b world \<Rightarrow> ustring \<Rightarrow> ustring list \<Rightarrow> jserror + 'b rvalue option list" where
  "hmgetBuffer s key flds =
     (if \<not> online s then Inl transport_error
      else if flds = [] then Inl arity_error
      else if holds_string s key then Inl wrongtype_error
      else Inr (map (hashes s key) flds))"

definition hmset :: "'b world \<Rightarrow> ustring \<Rightarrow> (ustring \<times> 'b) list \<Rightarrow> (unit, 'b) res" where
  "hmset s key props =
     (if \<not> online s then (Inl transport_error, s)
      else if props = [] then (Inl arity_error, s)
      else if holds_string s key then (Inl wrongtype_error, s)
      else (Inr (),
            s\<lparr>keyspace := (keyspace s)(key \<mapsto>
                 (HashValue (foldl (\<lambda>h kv. h(fst kv \<mapsto> Blob (snd kv))) (hashes s key) props),
                  expiry s key))\<rparr>))"

definition hincrby :: "'b world \<Rightarrow> ustring \<Rightarrow> ustring \<Rightarrow> int \<Rightarrow> (int, 'b) res" where
  "hincrby s key field n =
     (if \<not> online s then (Inl transport_error, s)
      else if holds_string s key then (Inl wrongtype_error, s)
      else (case hashes s key field of
              None \<Rightarrow>
                (Inr n,
                 s\<lparr>keyspace := (keyspace s)(key \<mapsto>
                      (HashValue ((hashes s key)(field \<mapsto> Counter n)), expiry s key))\<rparr>)
            | Some (Counter c) \<Rightarrow>
                (Inr (c + n),
                 s\<lparr>keyspace := (keyspace s)(key \<mapsto>
                      (HashValue ((hashes s key)(field \<mapsto> Counter (c + n))), expiry s key))\<rparr>)
            | Some (Blob b) \<Rightarrow> (Inl type_error, s)))"

definition exists_key :: "'b world \<Rightarrow> ustring \<Rightarrow> jserror + bool" where
  "exists_key s key = (if online s then Inr (entry s key \<noteq> None) else Inl transport_error)"

definition getBuffer :: "'b world \<Rightarrow> ustring \<Rightarrow> jserror + 'b rvalue option" where
  "getBuffer s key =
     (if \<not> online s then Inl transport_error
      else if holds_hash s key then Inl wrongtype_error
      else Inr (live s key))"

definition del :: "'b world \<Rightarrow> ustring \<Rightarrow> (nat, 'b) res" where
  "del s key =
     (if \<not> online s then (Inl transport_error, s)
      else (Inr (if entry s key \<noteq> None then 1 else 0),
            s\<lparr>keyspace := (keyspace s)(key := None)\<rparr>))"

text \<open>
  \<open>multi().set(key, value).expire(key, n).exec()\<close>: \<open>SET\<close> stores the value without
  expiry, whatever the key held before, and \<open>EXPIRE key n\<close> makes the key expire
  \<open>n\<close> seconds from now. Neither command fails on a server that is reached, so the
  pairs \<open>[err, result]\<close> that \<open>exec\<close> returns carry no error.
\<close>

definition multi_set_expire :: "'b world \<Rightarrow> ustring \<Rightarrow> 'b rvalue \<Rightarrow> int \<Rightarrow> (unit, 'b) res" where
  "multi_set_expire s key v n =
     (if \<not> online s then (Inl transport_error, s)
      else (Inr (),
            s\<lparr>keyspace := (keyspace s)(key \<mapsto> (StringValue v, Some (clock s + n * 1000)))\<rparr>))"

section \<open>The instance options and the collaborators\<close>

text \<open>One CAA record of a DNS answer: its \<open>issue\<close> property, if it has one.\<close>

type_synonym caa = "ustring option"

text \<open>A call that the ACME library makes to the challenge plugin during an order.\<close>

datatype pcall =
    PSet ustring ustring ustring
  | PGet ustring ustring
  | PRemove ustring ustring

text \<open>
  The options of an instance (\<open>namespace\<close>, \<open>encryptFn\<close>, \<open>decryptFn\<close>,
  \<open>acme.caaDomains\<close>, \<open>acme.environment\<close>) and the behaviour of what the program
  calls but does not define: the Unicode tables, the msgpack codec (\<open>msgpack_decode\<close> is \<open>None\<close> where it throws;
  \<open>msgpack_decode_int\<close> is what it makes of the digits of an integer value), Joi's domain
  check, the DNS resolver (\<open>None\<close> where the query throws), the lock service (the
  outcome of \<open>waitAcquireLock\<close>, and in \<open>lock_wait\<close> what the other processes and
  the clock do to the shared state while the call waits), key generation, \<open>pem2jwk\<close>,
  the CSR builder, the ACME client (\<open>acme_init\<close>, \<open>accounts_create\<close>,
  \<open>certificates_create\<close> with the plugin calls it makes) and the X.509 parser.
\<close>

record 'b env =
  unicode :: unicode_tables
  namespace :: "ustring option"
  msgpack_encode :: "jsval \<Rightarrow> 'b"
  msgpack_decode :: "'b \<Rightarrow> jsval option"
  msgpack_decode_int :: "int \<Rightarrow> jsval option"
  encryptFn :: "jsval \<Rightarrow> jsval"
  decryptFn :: "jsval \<Rightarrow> jsval"
  caaDomains :: "ustring list"
  environment :: ustring
  joi_domain :: "ustring \<Rightarrow> bool"
  has_resolveCaa :: bool
  resolveCaa :: "ustring \<Rightarrow> caa list option"
  lock_wait :: "'b world \<Rightarrow> 'b world"
  lock_result :: "jserror + bool"
  generateKey :: "jserror + jsval"
  pem2jwk :: "jsval \<Rightarrow> jserror + jsval"
  csr :: "jsval \<Rightarrow> ustring \<Rightarrow> jserror + jsval"
  acme_init :: "jserror option"
  accounts_create :: "jsval \<Rightarrow> jserror + jsval"
  certificates_create :: "jserror + jsval"
  plugin_calls :: "pcall list"
  parseCertificate :: "jsval \<Rightarrow> jserror + (ustring \<times> jsval) list"

text \<open>\<open>this.ns\<close> and \<open>getKey(name)\<close>, the same in the three classes.\<close>

definition ns :: "'b env \<Rightarrow> ustring" where
  "ns e = (case namespace e of None \<Rightarrow> [] | Some n \<Rightarrow> (if n = [] then [] else n @ ustr '':''))"

definition getKey :: "'b env \<Rightarrow> ustring \<Rightarrow> ustring" where
  "getKey e name = ns e @ ustr ''certs:'' @ name"

text \<open>\<open>msgpack.decode\<close> of what a read returned; a missing value makes it throw.\<close>

definition decode_value :: "'b env \<Rightarrow> 'b rvalue option \<Rightarrow> jsval option" where
  "decode_value e r =
     (case r of
        None \<Rightarrow> None
      | Some (Blob b) \<Rightarrow> msgpack_decode e b
      | Some (Counter n) \<Rightarrow> msgpack_decode_int e n)"

section \<open>settings.js\<close>

text \<open>The arguments of \<open>set(...args)\<close>: one object, a key and a value, or anything else.\<close>

datatype set_args = Fields "(ustring \<times> jsval) list" | KeyValue ustring jsval | Other

text \<open>
  \<open>set\<close>: in the first form \<open>props\<close> is filled by assignments
  \<open>props[key] = msgpack.encode(args[0][key])\<close> over the own keys of the argument;
  in the second it is the object literal \<open>{[args[0]]: ...}\<close>, whose computed key
  always makes an own property. The client sends the own properties of \<open>props\<close>.
\<close>

definition Settings_set :: "'b env \<Rightarrow> 'b world \<Rightarrow> set_args \<Rightarrow> (bool, 'b) res" where
  "Settings_set e s args =
     (let settingsKey = getKey e (ustr ''settings'')
      in case args of
           Fields kvs \<Rightarrow>
             bindR (hmset s settingsKey
                      (map (\<lambda>kv. (fst kv, msgpack_encode e (snd kv)))
                         (foldl (\<lambda>props key. set_prop props key (get_prop (Obj kvs) key)) []
                            (map fst kvs))))
               (\<lambda>_ s'. (Inr True, s'))
         | KeyValue k v \<Rightarrow>
             bindR (hmset s settingsKey [(k, msgpack_encode e v)]) (\<lambda>_ s'. (Inr True, s'))
         | Other \<Rightarrow> (Inr False, s))"

text \<open>
  The object \<open>data\<close> of \<open>get\<close>: its own properties and its prototype, which is
  \<open>Object.prototype\<close> at first. The assignment \<open>data[key] = v\<close> for the key
  \<open>__proto__\<close> calls the inherited setter: an object becomes the prototype, \<open>null\<close>
  removes it, and any other value is ignored; where no such setter is inherited
  (after the prototype was removed, or under a prototype with an own property of that
  name) it writes an own property, as for every other key.
\<close>

datatype proto = ObjectPrototype | NullPrototype | Replaced jsval

definition has_setter :: "proto \<Rightarrow> bool" where
  "has_setter p =
     (case p of
        ObjectPrototype \<Rightarrow> True
      | NullPrototype \<Rightarrow> False
      | Replaced x \<Rightarrow> map_of (props_of x) proto_key = None)"

definition set_data ::
  "(ustring \<times> jsval) list \<times> proto \<Rightarrow> ustring \<Rightarrow> jsval \<Rightarrow> (ustring \<times> jsval) list \<times> proto" where
  "set_data d key v =
     (if key = proto_key \<and> map_of (fst d) proto_key = None \<and> has_setter (snd d)
      then (if v = Null then (fst d, NullPrototype)
            else if is_object v then (fst d, Replaced v)
            else d)
      else (put_prop (fst d) key v, snd d))"

text \<open>
  The properties of \<open>Object.prototype\<close> besides \<open>__proto__\<close>, and what reading one of
  them gives on an object that inherits it.
\<close>

definition object_prototype_names :: "ustring list" where
  "object_prototype_names =
     [ustr ''constructor'', ustr ''__defineGetter__'', ustr ''__defineSetter__'',
      ustr ''hasOwnProperty'', ustr ''__lookupGetter__'', ustr ''__lookupSetter__'',
      ustr ''isPrototypeOf'', ustr ''propertyIsEnumerable'', ustr ''toString'',
      ustr ''valueOf'', ustr ''toLocaleString'']"

definition inherited :: "ustring \<Rightarrow> jsval" where
  "inherited key =
     (if List.member object_prototype_names key then Native (ustr ''Object.prototype.'' @ key)
      else Undefined)"

text \<open>
  \<open>data[key]\<close>: an own property, or one that is inherited; \<open>__proto__\<close> reads the
  prototype. Under a prototype that was replaced, the own properties of an object
  are looked up (the indices, the length and the methods of an array, a buffer or a
  date are not modelled).
\<close>

definition read_data :: "(ustring \<times> jsval) list \<times> proto \<Rightarrow> ustring \<Rightarrow> jsval" where
  "read_data d key =
     (case map_of (fst d) key of
        Some v \<Rightarrow> v
      | None \<Rightarrow>
          (case snd d of
             NullPrototype \<Rightarrow> Undefined
           | ObjectPrototype \<Rightarrow>
               (if key = proto_key then Native (ustr ''Object.prototype'') else inherited key)
           | Replaced x \<Rightarrow>
               (case map_of (props_of x) key of
                  Some v \<Rightarrow> v
                | None \<Rightarrow> (if key = proto_key then x else inherited key))))"

text \<open>
  The loop of \<open>get\<close>: \<open>data[key] = msgpack.decode(list[i])\<close>, skipped where the
  decoder throws.
\<close>

fun get_data :: "'b env \<Rightarrow> ustring list \<Rightarrow> 'b rvalue option list
    \<Rightarrow> (ustring \<times> jsval) list \<times> proto \<Rightarrow> (ustring \<times> jsval) list \<times> proto" where
  "get_data e (key # keys) (r # rs) data =
     (case decode_value e r of
        None \<Rightarrow> get_data e keys rs data
      | Some v \<Rightarrow> get_data e keys rs (set_data data key v))"
| "get_data e keys rs data = data"

text \<open>
  What \<open>get\<close> returns: for one key the value \<open>data[keys[0]]\<close>, otherwise the object
  \<open>data\<close> itself.
\<close>

datatype got = Value jsval | Data "(ustring \<times> jsval) list" proto

text \<open>\<open>get(...args)\<close>, with \<open>keys\<close> the flattened arguments.\<close>

definition Settings_get :: "'b env \<Rightarrow> 'b world \<Rightarrow> ustring list \<Rightarrow> jserror + got" where
  "Settings_get e s keys =
     (case hmgetBuffer s (getKey e (ustr ''settings'')) keys of
        Inl err \<Rightarrow> Inl err
      | Inr list \<Rightarrow>
          (let data = get_data e keys list ([], ObjectPrototype)
           in if length keys = 1 then Inr (Value (read_data data (hd keys)))
              else Inr (Data (fst data) (snd data))))"

text \<open>
  The result of a call with one key, as a value, and \<open>data[key]\<close> on the result of
  a call with several keys.
\<close>

definition got_value :: "got \<Rightarrow> jsval" where
  "got_value g = (case g of Value v \<Rightarrow> v | Data own p \<Rightarrow> Obj own)"

definition got_prop :: "got \<Rightarrow> ustring \<Rightarrow> jsval" where
  "got_prop g key = (case g of Value v \<Rightarrow> get_prop v key | Data own p \<Rightarrow> read_data (own, p) key)"

text \<open>A call of \<open>get\<close> with one key.\<close>

definition Settings_get1 :: "'b env \<Rightarrow> 'b world \<Rightarrow> ustring \<Rightarrow> jserror + jsval" where
  "Settings_get1 e s key =
     (case Settings_get e s [key] of Inl err \<Rightarrow> Inl err | Inr g \<Rightarrow> Inr (got_value g))"

definition Settings_has :: "'b env \<Rightarrow> 'b world \<Rightarrow> ustring \<Rightarrow> jserror + bool" where
  "Settings_has e s key = hexists s (getKey e (ustr ''settings'')) key"

section \<open>Comparisons with a time\<close>

text \<open>
  \<open>v < t\<close>, \<open>v > t\<close> and \<open>v >= t\<close> against a \<open>Date\<close> compare numbers: a \<open>Date\<close>
  is its milliseconds; \<open>undefined\<close>, an object and (as no numeric string is stored
  in these places) a string are \<open>NaN\<close>, for which every comparison is false.
\<close>

fun to_number :: "jsval \<Rightarrow> int option" where
  "to_number (Date d) = Some d"
| "to_number (Num n) = Some n"
| "to_number (JBool b) = Some (if b then 1 else 0)"
| "to_number Null = Some 0"
| "to_number v = None"

definition js_lt :: "jsval \<Rightarrow> int \<Rightarrow> bool" where
  "js_lt v t = (case to_number v of None \<Rightarrow> False | Some n \<Rightarrow> n < t)"

definition js_gt :: "jsval \<Rightarrow> int \<Rightarrow> bool" where
  "js_gt v t = (case to_number v of None \<Rightarrow> False | Some n \<Rightarrow> n > t)"

definition js_ge :: "jsval \<Rightarrow> int \<Rightarrow> bool" where
  "js_ge v t = (case to_number v of None \<Rightarrow> False | Some n \<Rightarrow> n \<ge> t)"

section \<open>acme-challenge.js\<close>

definition DEFAULT_TTL :: int where
  "DEFAULT_TTL = 2 * 3600 * 1000"

text \<open>\<open>this.ttl = ttl || DEFAULT_TTL\<close>, for the \<open>ttl\<close> of the configuration.\<close>

definition ttl :: "int option \<Rightarrow> int" where
  "ttl cfg = (case cfg of None \<Rightarrow> DEFAULT_TTL | Some t \<Rightarrow> (if t = 0 then DEFAULT_TTL else t))"

definition challengeKey :: "'b env \<Rightarrow> ustring \<Rightarrow> ustring \<Rightarrow> ustring" where
  "challengeKey e domain token = getKey e (ustr ''challenge:'' @ domain @ ustr '':'' @ token)"

definition decode_error :: jserror where
  "decode_error = \<lparr>message = ustr ''Unable to decode'', code = None, responseCode = None\<rparr>"

text \<open>
  \<open>getData\<close>: a stored value is never empty (the codec encodes nothing to zero
  bytes), so \<open>encoded && encoded.length\<close> is whether the key is there.
\<close>

definition getData :: "'b env \<Rightarrow> 'b world \<Rightarrow> ustring \<Rightarrow> ustring \<Rightarrow> jserror + jsval" where
  "getData e s domain token =
     (case getBuffer s (challengeKey e domain token) of
        Inl err \<Rightarrow> Inl err
      | Inr None \<Rightarrow> Inr (JBool False)
      | Inr (Some encoded) \<Rightarrow>
          (case decode_value e (Some encoded) of
             None \<Rightarrow> Inl decode_error
           | Some v \<Rightarrow> Inr v))"

definition setData :: "'b env \<Rightarrow> int option \<Rightarrow> 'b world \<Rightarrow> ustring \<Rightarrow> ustring \<Rightarrow> jsval \<Rightarrow> (unit, 'b) res" where
  "setData e cfg s domain token data =
     multi_set_expire s (challengeKey e domain token) (Blob (msgpack_encode e data)) (ttl cfg)"

definition deleteData :: "'b env \<Rightarrow> 'b world \<Rightarrow> ustring \<Rightarrow> ustring \<Rightarrow> (nat, 'b) res" where
  "deleteData e s domain token = del s (challengeKey e domain token)"

definition dataKey :: "ustring \<Rightarrow> ustring" where
  "dataKey domain = ustr ''domain:'' @ domain @ ustr '':data''"

definition domain_not_found :: jserror where
  "domain_not_found = \<lparr>message = ustr ''Domain not found'', code = None, responseCode = Some 404\<rparr>"

text \<open>The record that \<open>set\<close> composes.\<close>

definition challenge_record :: "ustring \<Rightarrow> ustring \<Rightarrow> int \<Rightarrow> int \<Rightarrow> jsval" where
  "challenge_record token keyAuthorization created expires =
     Obj [(ustr ''acme'',
           Obj [(ustr ''token'', Str token),
                (ustr ''secret'',
                 Obj [(ustr ''value'', Str keyAuthorization),
                      (ustr ''created'', Date created),
                      (ustr ''expires'', Date expires)])])]"

text \<open>\<open>set({challenge: {altname, keyAuthorization, token}})\<close>.\<close>

definition Challenge_set ::
  "'b env \<Rightarrow> int option \<Rightarrow> 'b world \<Rightarrow> ustring \<Rightarrow> ustring \<Rightarrow> ustring \<Rightarrow> (bool, 'b) res" where
  "Challenge_set e cfg s altname keyAuthorization token =
     (let domain = normalizeDomain (unicode e) altname
      in case Settings_has e s (dataKey domain) of
           Inl err \<Rightarrow> (Inl err, s)
         | Inr False \<Rightarrow> (Inl domain_not_found, s)
         | Inr True \<Rightarrow>
             bindR (setData e cfg s domain token
                      (challenge_record token keyAuthorization (clock s) (clock s + ttl cfg)))
               (\<lambda>_ s'. (Inr True, s')))"

text \<open>\<open>get({challenge: {identifier: {value}, token}})\<close>.\<close>

definition Challenge_get :: "'b env \<Rightarrow> 'b world \<Rightarrow> ustring \<Rightarrow> ustring \<Rightarrow> (jsval, 'b) res" where
  "Challenge_get e s identifier token =
     (let domain = normalizeDomain (unicode e) identifier
      in case getData e s domain token of
           Inl err \<Rightarrow> (Inl err, s)
         | Inr tokenData \<Rightarrow>
             (if \<not> truthy tokenData then (Inr Null, s)
              else
                let acme = get_prop tokenData (ustr ''acme'');
                    secret = get_prop acme (ustr ''secret'');
                    val = get_prop secret (ustr ''value'');
                    expires = get_prop secret (ustr ''expires'')
                in if \<not> truthy acme \<or> \<not> truthy secret \<or> \<not> truthy val
                      \<or> (truthy expires \<and> js_lt expires (clock s))
                   then bindR (deleteData e s domain token) (\<lambda>_ s'. (Inr Null, s'))
                   else (Inr (Obj [(ustr ''keyAuthorization'', val)]), s)))"

definition Challenge_remove :: "'b env \<Rightarrow> 'b world \<Rightarrow> ustring \<Rightarrow> ustring \<Rightarrow> (nat, 'b) res" where
  "Challenge_remove e s identifier token = deleteData e s (normalizeDomain (unicode e) identifier) token"

section \<open>certs.js\<close>

definition RENEW_AFTER_REMAINING :: int where
  "RENEW_AFTER_REMAINING = 10000 + 30 * 24 * 3600 * 1000"

definition BLOCK_RENEW_AFTER_ERROR_TTL :: int where
  "BLOCK_RENEW_AFTER_ERROR_TTL = 10"

subsection \<open>validateDomain\<close>

definition invalid_domain :: jserror where
  "invalid_domain =
     \<lparr>message = ustr ''${domain} is not a valid domain name'',
      code = Some (ustr ''invalid_domain''), responseCode = Some 400\<rparr>"

definition caa_mismatch :: "ustring \<Rightarrow> ustring \<Rightarrow> jserror" where
  "caa_mismatch subdomain domain =
     \<lparr>message = ustr ''LE not listed in the CAA record for '' @ subdomain @ ustr '' (''
                 @ domain @ ustr '')'',
      code = Some (ustr ''caa_mismatch''), responseCode = Some 403\<rparr>"

text \<open>\<open>normalizeDomain(r && r.issue)\<close> for a record of the answer.\<close>

definition issuer :: "unicode_tables \<Rightarrow> caa \<Rightarrow> ustring" where
  "issuer u r = normalizeDomain u (case r of None \<Rightarrow> [] | Some i \<Rightarrow> i)"

text \<open>
  The loop \<open>for (let i = 0; i < parts.length - 1; i++)\<close> of \<open>validateDomain\<close>, from
  index \<open>i\<close> on. A query that throws leaves \<open>caaRes\<close> undefined.
\<close>

function caa_walk :: "'b env \<Rightarrow> ustring list \<Rightarrow> ustring \<Rightarrow> ustring list \<Rightarrow> nat \<Rightarrow> jserror + unit" where
  "caa_walk e caaDoms domain parts i =
     (if int i < int (length parts) - 1 then
        (let subdomain = join_with (ustr ''.'') (drop i parts)
         in case resolveCaa e subdomain of
              None \<Rightarrow> caa_walk e caaDoms domain parts (Suc i)
            | Some caaRes \<Rightarrow>
                (if caaRes \<noteq> [] \<and> \<not> list_ex (\<lambda>r. List.member caaDoms (issuer (unicode e) r)) caaRes
                 then Inl (caa_mismatch subdomain domain)
                 else if caaRes \<noteq> [] then Inr ()
                 else caa_walk e caaDoms domain parts (Suc i)))
      else Inr ())"
  by pat_completeness auto
termination
  by (relation "measure (\<lambda>(e, caaDoms, domain, parts, i). length parts - i)") auto

declare caa_walk.simps [simp del]

definition validateDomain :: "'b env \<Rightarrow> ustring \<Rightarrow> jserror + unit" where
  "validateDomain e domain =
     (if \<not> joi_domain e domain then Inl invalid_domain
      else
        let caaDoms = filter (\<lambda>d. d \<noteq> []) (map (normalizeDomain (unicode e)) (caaDomains e))
        in if has_resolveCaa e \<and> caaDoms \<noteq> []
           then caa_walk e caaDoms domain (split_on 0x2E domain) 0
           else Inr ())"

subsection \<open>loadCertificateData and setCertificateData\<close>

definition lastCheckKey :: "ustring \<Rightarrow> ustring" where
  "lastCheckKey domain = ustr ''domain:'' @ domain @ ustr '':lastCheck''"

definition privateKeyKey :: "ustring \<Rightarrow> ustring" where
  "privateKeyKey domain = ustr ''domain:'' @ domain @ ustr '':privateKey''"

definition lastErrorKey :: "ustring \<Rightarrow> ustring" where
  "lastErrorKey domain = ustr ''domain:'' @ domain @ ustr '':lastError''"

definition versionKey :: "ustring \<Rightarrow> ustring" where
  "versionKey domain = ustr ''domain:'' @ domain @ ustr '':certVersion''"

text \<open>\<open>v || null\<close>.\<close>

definition or_null :: "jsval \<Rightarrow> jsval" where
  "or_null v = (if truthy v then v else Null)"

text \<open>
  \<open>Number(certVersion) || null\<close> for what \<open>hget\<close> returned: a missing field is
  \<open>Number(null)\<close>, which is 0; bytes of the codec are not a numeral.
\<close>

definition version_number :: "'b rvalue option \<Rightarrow> jsval" where
  "version_number r =
     (case r of
        Some (Counter n) \<Rightarrow> (if n \<noteq> 0 then Num n else Null)
      | _ \<Rightarrow> Null)"

definition loadCertificateData :: "'b env \<Rightarrow> 'b world \<Rightarrow> ustring \<Rightarrow> jserror + jsval" where
  "loadCertificateData e s domain =
     (case Settings_get e s [dataKey domain, lastCheckKey domain, privateKeyKey domain,
                             lastErrorKey domain] of
        Inl err \<Rightarrow> Inl err
      | Inr data \<Rightarrow>
          (case hget s (getKey e (ustr ''settings'')) (versionKey domain) of
             Inl err \<Rightarrow> Inl err
           | Inr certVersion \<Rightarrow>
               (if \<not> truthy (got_prop data (dataKey domain)) then Inr (JBool False)
                else Inr (Obj (assign (props_of (got_prop data (dataKey domain)))
                    [(ustr ''lastCheck'', or_null (got_prop data (lastCheckKey domain))),
                     (ustr ''privateKey'',
                        if truthy (got_prop data (privateKeyKey domain))
                        then decryptFn e (got_prop data (privateKeyKey domain)) else Null),
                     (ustr ''lastError'', or_null (got_prop data (lastErrorKey domain))),
                     (ustr ''certVersion'', version_number certVersion)])))))"

text \<open>
  The first part of \<open>setCertificateData\<close>: the three properties that have a field of
  their own move from \<open>updates\<close> to \<open>values\<close>, and \<open>certVersion\<close> is dropped.
  The result is the pair of \<open>values\<close> and what is left of \<open>updates\<close>.
\<close>

definition split_updates ::
  "'b env \<Rightarrow> ustring \<Rightarrow> (ustring \<times> jsval) list
    \<Rightarrow> (ustring \<times> jsval) list \<times> (ustring \<times> jsval) list" where
  "split_updates e domain updates =
     (let values0 = [];
          values1 = (if has_prop updates (ustr ''privateKey'')
                     then set_prop values0 (privateKeyKey domain)
                            (encryptFn e (get_prop (Obj updates) (ustr ''privateKey'')))
                     else values0);
          updates1 = del_prop updates (ustr ''privateKey'');
          values2 = (if has_prop updates1 (ustr ''lastCheck'')
                     then set_prop values1 (lastCheckKey domain)
                            (get_prop (Obj updates1) (ustr ''lastCheck''))
                     else values1);
          updates2 = del_prop updates1 (ustr ''lastCheck'');
          values3 = (if has_prop updates2 (ustr ''lastError'')
                     then set_prop values2 (lastErrorKey domain)
                            (get_prop (Obj updates2) (ustr ''lastError''))
                     else values2);
          updates3 = del_prop updates2 (ustr ''lastError'');
          updates4 = del_prop updates3 (ustr ''certVersion'')
      in (values3, updates4))"

definition setCertificateData ::
  "'b env \<Rightarrow> 'b world \<Rightarrow> ustring \<Rightarrow> (ustring \<times> jsval) list \<Rightarrow> (jsval, 'b) res" where
  "setCertificateData e s domain updates =
     (let incrVersion = truthy (get_prop (Obj updates) (ustr ''cert''));
          (values3, updates4) = split_updates e domain updates
      in case (if updates4 \<noteq> []
               then (case Settings_get1 e s (dataKey domain) of
                       Inl err \<Rightarrow> Inl err
                     | Inr currentData \<Rightarrow>
                         Inr (set_prop values3 (dataKey domain)
                                (Obj (assign (if truthy currentData then props_of currentData else [])
                                        updates4))))
               else Inr values3) of
           Inl err \<Rightarrow> (Inl err, s)
         | Inr values4 \<Rightarrow>
             bindR (if incrVersion
                    then hincrby s (getKey e (ustr ''settings'')) (versionKey domain) 1
                    else (Inr 0, s))
               (\<lambda>_ s1.
                  if values4 \<noteq> []
                  then bindR (Settings_set e s1 (Fields values4)) (\<lambda>ok s2. (Inr (JBool ok), s2))
                  else (Inr Undefined, s1)))"

subsection \<open>getAcmeAccount\<close>

definition accountKey :: "'b env \<Rightarrow> ustring" where
  "accountKey e = ustr ''account:'' @ environment e"

text \<open>
  \<open>ensureAcme\<close> is the outcome of \<open>acme.init\<close>. The write of a new account is not
  awaited by the source: it is issued, and its failure is not seen by the caller.
\<close>

definition getAcmeAccount :: "'b env \<Rightarrow> 'b world \<Rightarrow> (jsval, 'b) res" where
  "getAcmeAccount e s =
     (case acme_init e of
        Some err \<Rightarrow> (Inl err, s)
      | None \<Rightarrow>
          (case Settings_get1 e s (accountKey e) of
             Inl err \<Rightarrow> (Inl err, s)
           | Inr accountData \<Rightarrow>
               (if truthy accountData then
                  (if truthy (get_prop accountData (ustr ''privateKey''))
                   then (Inr (Obj (put_prop (props_of accountData) (ustr ''privateKey'')
                                     (decryptFn e (get_prop accountData (ustr ''privateKey''))))), s)
                   else (Inr accountData, s))
                else
                  (case generateKey e of
                     Inl err \<Rightarrow> (Inl err, s)
                   | Inr privateKey \<Rightarrow>
                       (case pem2jwk e privateKey of
                          Inl err \<Rightarrow> (Inl err, s)
                        | Inr jwkAccount \<Rightarrow>
                            (case accounts_create e jwkAccount of
                               Inl err \<Rightarrow> (Inl err, s)
                             | Inr account \<Rightarrow>
                                 (Inr (Obj [(ustr ''privateKey'', privateKey),
                                            (ustr ''account'', account)]),
                                  snd (Settings_set e s
                                         (KeyValue (accountKey e)
                                            (Obj [(ustr ''privateKey'', encryptFn e privateKey),
                                                  (ustr ''account'', account)]))))))))))"

subsection \<open>acquireCert\<close>

definition safeLockKey :: "'b env \<Rightarrow> ustring \<Rightarrow> ustring" where
  "safeLockKey e domain = getKey e (ustr ''lock:safe:'' @ domain)"

text \<open>
  The calls that the ACME library makes to the challenge plugin of the instance
  (created without a \<open>ttl\<close>) while an order runs; what they return goes to the library.
\<close>

fun run_plugin :: "'b env \<Rightarrow> 'b world \<Rightarrow> pcall list \<Rightarrow> 'b world" where
  "run_plugin e s [] = s"
| "run_plugin e s (PSet altname keyAuthorization token # cs) =
     run_plugin e (snd (Challenge_set e None s altname keyAuthorization token)) cs"
| "run_plugin e s (PGet identifier token # cs) =
     run_plugin e (snd (Challenge_get e s identifier token)) cs"
| "run_plugin e s (PRemove identifier token # cs) =
     run_plugin e (snd (Challenge_remove e s identifier token)) cs"

text \<open>\<open>[].concat(v || [])\<close>.\<close>

definition concat_chain :: "jsval \<Rightarrow> jsval" where
  "concat_chain v = (if \<not> truthy v then Arr [] else (case v of Arr xs \<Rightarrow> Arr xs | _ \<Rightarrow> Arr [v]))"

text \<open>
  The key of the domain: the one of the record, or a new one, which is stored with
  the status \<open>pending\<close>.
\<close>

definition provision_key :: "'b env \<Rightarrow> 'b world \<Rightarrow> ustring \<Rightarrow> jsval \<Rightarrow> (jsval, 'b) res" where
  "provision_key e s domain existingCertificateData =
     (let privateKey = get_prop existingCertificateData (ustr ''privateKey'')
      in if \<not> truthy privateKey then
           (case generateKey e of
              Inl err \<Rightarrow> (Inl err, s)
            | Inr privateKey' \<Rightarrow>
                bindR (setCertificateData e s domain
                         [(ustr ''domain'', Str domain), (ustr ''privateKey'', privateKey'),
                          (ustr ''status'', Str (ustr ''pending'')), (ustr ''lastError'', Null)])
                  (\<lambda>_ s'. (Inr privateKey', s')))
         else (Inr privateKey, s))"

text \<open>
  From the answer of the CA to the end of the \<open>try\<close> block: an empty answer returns
  the record; otherwise the certificate is parsed and stored and the record is loaded.
\<close>

definition store_cert :: "'b env \<Rightarrow> 'b world \<Rightarrow> ustring \<Rightarrow> jsval \<Rightarrow> jsval \<Rightarrow> (jsval, 'b) res" where
  "store_cert e s domain existingCertificateData cert =
     (if \<not> truthy cert \<or> \<not> truthy (get_prop cert (ustr ''cert''))
      then (Inr existingCertificateData, s)
      else
        (case parseCertificate e (get_prop cert (ustr ''cert'')) of
           Inl err \<Rightarrow> (Inl err, s)
         | Inr parsed \<Rightarrow>
             bindR (setCertificateData e s domain
                      (assign parsed
                         [(ustr ''cert'', get_prop cert (ustr ''cert'')),
                          (ustr ''ca'', concat_chain (get_prop cert (ustr ''chain''))),
                          (ustr ''lastCheck'', Date (clock s)),
                          (ustr ''lastError'', Null),
                          (ustr ''status'', Str (ustr ''valid''))]))
               (\<lambda>_ s'. (case loadCertificateData e s' domain of
                            Inl err \<Rightarrow> (Inl err, s')
                          | Inr v \<Rightarrow> (Inr v, s')))))"

text \<open>
  The order: the CSR, the account, \<open>acme.certificates.create\<close> (counted in \<open>orders\<close>,
  with the plugin calls of the library), and \<open>store_cert\<close> on its answer.
\<close>

definition place_order :: "'b env \<Rightarrow> 'b world \<Rightarrow> ustring \<Rightarrow> jsval \<Rightarrow> jsval \<Rightarrow> (jsval, 'b) res" where
  "place_order e s domain existingCertificateData privateKey =
     (case pem2jwk e privateKey of
        Inl err \<Rightarrow> (Inl err, s)
      | Inr jwkPrivateKey \<Rightarrow>
          (case csr e jwkPrivateKey domain of
             Inl err \<Rightarrow> (Inl err, s)
           | Inr csr' \<Rightarrow>
               bindR (getAcmeAccount e s)
                 (\<lambda>acmeAccount s1.
                    if \<not> truthy acmeAccount then (Inr (JBool False), s1)
                    else
                      (case pem2jwk e (get_prop acmeAccount (ustr ''privateKey'')) of
                         Inl err \<Rightarrow> (Inl err, s1)
                       | Inr jwkAccount \<Rightarrow>
                           (let s2 = run_plugin e (s1\<lparr>orders := Suc (orders s1)\<rparr>) (plugin_calls e)
                            in case certificates_create e of
                                 Inl err \<Rightarrow> (Inl err, s2)
                               | Inr cert \<Rightarrow> store_cert e s2 domain existingCertificateData cert)))))"

text \<open>
  The body of the \<open>try\<close> block of \<open>acquireCert\<close>, entered with the lock held.
  The renewal check reads \<open>existingCertificateData\<close>, the value that \<open>acquireCert\<close>
  loaded before it asked for the lock.
\<close>

definition issue :: "'b env \<Rightarrow> 'b world \<Rightarrow> ustring \<Rightarrow> jsval \<Rightarrow> (jsval, 'b) res" where
  "issue e s domain existingCertificateData =
     (if truthy (get_prop existingCertificateData (ustr ''validTo''))
         \<and> js_gt (get_prop existingCertificateData (ustr ''validTo''))
              (clock s + RENEW_AFTER_REMAINING)
      then (Inr existingCertificateData, s)
      else bindR (provision_key e s domain existingCertificateData)
             (\<lambda>privateKey s1. place_order e s1 domain existingCertificateData privateKey))"

text \<open>
  The \<open>catch\<close> block: the fail-safe key is set (a failure of that write is logged
  and dropped), \<open>lastError\<close> is written if there is a record (likewise), and the old
  certificate is returned if there is one; otherwise the error is thrown again.
\<close>

definition on_failure :: "'b env \<Rightarrow> 'b world \<Rightarrow> ustring \<Rightarrow> jsval \<Rightarrow> jserror \<Rightarrow> (jsval, 'b) res" where
  "on_failure e s domain existingCertificateData err =
     (let s1 = snd (multi_set_expire s (safeLockKey e domain) (Counter 1)
                      BLOCK_RENEW_AFTER_ERROR_TTL);
          s2 = (if truthy existingCertificateData
                then snd (setCertificateData e s1 domain
                            [(ustr ''lastError'',
                              Obj [(ustr ''err'', Str (message err)),
                                   (ustr ''code'', (case code err of None \<Rightarrow> Undefined | Some c \<Rightarrow> Str c)),
                                   (ustr ''time'', Date (clock s1))])])
                else s1)
      in if truthy existingCertificateData \<and> truthy (get_prop existingCertificateData (ustr ''cert''))
         then (Inr existingCertificateData, s2)
         else (Inl err, s2))"

text \<open>
  \<open>acquireCert\<close>. The release of the lock in the \<open>finally\<close> block changes nothing
  of the state above (the lock service keeps its own keys).
\<close>

definition acquireCert :: "'b env \<Rightarrow> 'b world \<Rightarrow> ustring \<Rightarrow> (jsval, 'b) res" where
  "acquireCert e s domain0 =
     (let domain = normalizeDomain (unicode e) domain0
      in case loadCertificateData e s domain of
           Inl err \<Rightarrow> (Inl err, s)
         | Inr existingCertificateData \<Rightarrow>
             (case exists_key s (safeLockKey e domain) of
                Inl err \<Rightarrow> (Inl err, s)
              | Inr True \<Rightarrow> (Inr existingCertificateData, s)
              | Inr False \<Rightarrow>
                  (case validateDomain e domain of
                     Inl err \<Rightarrow> (Inr existingCertificateData, s)
                   | Inr _ \<Rightarrow>
                       (let s1 = lock_wait e s
                        in case lock_result e of
                             Inl err \<Rightarrow> (Inl err, s1)
                           | Inr False \<Rightarrow> (Inr existingCertificateData, s1)
                           | Inr True \<Rightarrow>
                               (case issue e s1 domain existingCertificateData of
                                  (Inr v, s2) \<Rightarrow> (Inr v, s2)
                                | (Inl err, s2) \<Rightarrow>
                                    on_failure e s2 domain existingCertificateData err)))))"

subsection \<open>routeHandler and getCertificate\<close>

text \<open>
  The schema of \<open>routeHandler\<close>: \<open>domain\<close> may be missing and is otherwise checked by
  Joi; \<open>token\<close> is required, not empty and at most 256 UTF-16 code units long. The
  text of Joi's message is not modelled.
\<close>

definition input_validation_error :: jserror where
  "input_validation_error =
     \<lparr>message = ustr ''ValidationError'', code = Some (ustr ''InputValidationError''),
      responseCode = Some 400\<rparr>"

definition challenge_fail :: jserror where
  "challenge_fail =
     \<lparr>message = ustr ''Failed to verify authentication token'', code = None,
      responseCode = Some 500\<rparr>"

definition challenge_not_found :: jserror where
  "challenge_not_found =
     \<lparr>message = ustr ''Unknown challenge'', code = Some (ustr ''ChallengeNotFound''),
      responseCode = Some 404\<rparr>"

definition routeHandler :: "'b env \<Rightarrow> 'b world \<Rightarrow> ustring option \<Rightarrow> ustring \<Rightarrow> (jsval, 'b) res" where
  "routeHandler e s domain token =
     (if (case domain of None \<Rightarrow> False | Some d \<Rightarrow> \<not> joi_domain e d)
         \<or> token = [] \<or> utf16_length token > 256
      then (Inl input_validation_error, s)
      else
        (case Challenge_get e s (case domain of None \<Rightarrow> [] | Some d \<Rightarrow> d) token of
           (Inl err, s') \<Rightarrow> (Inl challenge_fail, s')
         | (Inr challenge, s') \<Rightarrow>
             (if \<not> truthy challenge \<or> \<not> truthy (get_prop challenge (ustr ''keyAuthorization''))
              then (Inl challenge_not_found, s')
              else (Inr (get_prop challenge (ustr ''keyAuthorization'')), s'))))"

definition getCertificate :: "'b env \<Rightarrow> 'b world \<Rightarrow> ustring \<Rightarrow> (jsval, 'b) res" where
  "getCertificate e s domain0 =
     (let domain = normalizeDomain (unicode e) domain0
      in case loadCertificateData e s domain of
           Inl err \<Rightarrow> (Inl err, s)
         | Inr certificateData \<Rightarrow>
             (if truthy certificateData
                 \<and> get_prop certificateData (ustr ''status'') = Str (ustr ''valid'')
                 \<and> truthy (get_prop certificateData (ustr ''validTo''))
                 \<and> js_ge (get_prop certificateData (ustr ''validTo'')) (clock s)
              then (Inr certificateData, s)
              else acquireCert e s domain))"

section \<open>An example instance\<close>

text \<open>
  An instance with the Latin-1 tables and without namespace whose codec, \<open>encryptFn\<close> and \<open>decryptFn\<close> are the
  identity (the wire type is the value itself), with the default \<open>caaDomains\<close>, and
  collaborators that all succeed: Joi accepts every non-empty name, no name has a CAA
  record, the lock is free, and the CA answers with a certificate that is valid for
  ninety days from time 0.
\<close>

definition ninety_days :: int where
  "ninety_days = 90 * 24 * 3600 * 1000"

definition example_env :: "jsval env" where
  "example_env =
     \<lparr>unicode = latin1,
      namespace = None,
      msgpack_encode = (\<lambda>v. v),
      msgpack_decode = Some,
      msgpack_decode_int = (\<lambda>n. None),
      encryptFn = (\<lambda>v. v),
      decryptFn = (\<lambda>v. v),
      caaDomains = [ustr ''letsencrypt.org''],
      environment = ustr ''development'',
      joi_domain = (\<lambda>d. d \<noteq> []),
      has_resolveCaa = True,
      resolveCaa = (\<lambda>d. Some []),
      lock_wait = (\<lambda>w. w),
      lock_result = Inr True,
      generateKey = Inr (Str (ustr ''KEY'')),
      pem2jwk = Inr,
      csr = (\<lambda>k d. Inr (Str (ustr ''CSR''))),
      acme_init = None,
      accounts_create = (\<lambda>k. Inr (Obj [])),
      certificates_create = Inr (Obj [(ustr ''cert'', Str (ustr ''CERT''))]),
      plugin_calls = [],
      parseCertificate = (\<lambda>c. Inr [(ustr ''validTo'', Date ninety_days)])\<rparr>"

text \<open>A store that holds the given fields of the settings hash and nothing else.\<close>

definition example_world :: "(ustring \<times> jsval) list \<Rightarrow> int \<Rightarrow> jsval world" where
  "example_world flds now =
     \<lparr>online = True,
      keyspace = (\<lambda>key. if key = ustr ''certs:settings''
                         then Some (HashValue (\<lambda>field. map_option Blob (map_of flds field)), None)
                         else None),
      clock = now,
      orders = 0\<rparr>"


text \<open>
  A stored record of \<open>example.com\<close> that is valid until \<open>t\<close>, the store that holds it
  (and nothing else) at the time \<open>now\<close>, and what \<open>loadCertificateData\<close> makes of it.
\<close>

definition stored_record :: "int \<Rightarrow> jsval" where
  "stored_record t =
     Obj [(ustr ''status'', Str (ustr ''valid'')),
          (ustr ''cert'', Str (ustr ''CERT'')),
          (ustr ''validTo'', Date t)]"

definition record_world :: "int \<Rightarrow> int \<Rightarrow> jsval world" where
  "record_world t now = example_world [(dataKey (ustr ''example.com''), stored_record t)] now"

definition loaded_record :: "int \<Rightarrow> jsval" where
  "loaded_record t =
     Obj [(ustr ''status'', Str (ustr ''valid'')),
          (ustr ''cert'', Str (ustr ''CERT'')),
          (ustr ''validTo'', Date t),
          (ustr ''lastCheck'', Null),
          (ustr ''privateKey'', Null),
          (ustr ''lastError'', Null),
          (ustr ''certVersion'', Null)]"

text \<open>
  The example instance when another process holds the lock: the call waits for its
  three minutes and does not get it.
\<close>

definition busy_env :: "jsval env" where
  "busy_env =
     example_env\<lparr>lock_wait := (\<lambda>w. w\<lparr>clock := clock w + 3 * 60 * 1000\<rparr>),
                 lock_result := Inr False\<rparr>"

text \<open>
  The example instance as the second of two processes that call \<open>acquireCert\<close> for
  \<open>example.com\<close> at the same time: while it waits for the lock, the first process
  runs its \<open>acquireCert\<close> to the end; then the second one gets the lock.
\<close>

definition racing_env :: "jsval env" where
  "racing_env =
     example_env\<lparr>lock_wait := (\<lambda>w. snd (acquireCert example_env w (ustr ''example.com'')))\<rparr>"

definition five_days :: int where
  "five_days = 5 * 24 * 3600 * 1000"

text \<open>The example instance with a CA that refuses the order.\<close>

definition acme_error :: jserror where
  "acme_error =
     \<lparr>message = ustr ''rate limited'', code = Some (ustr ''E_ACME''), responseCode = None\<rparr>"

definition failing_env :: "jsval env" where
  "failing_env = example_env\<lparr>certificates_create := Inl acme_error\<rparr>"

section \<open>The stored version and sequences of calls\<close>

text \<open>
  The version of a domain in a hash: the integer in the field
  \<open>domain:<D>:certVersion\<close>, and 0 where the field is missing or is no integer (what
  \<open>Number(certVersion) || null\<close> reads as no version). \<open>certVersion\<close> is the one in
  the settings hash of an instance.
\<close>

definition version_at :: "'b world \<Rightarrow> ustring \<Rightarrow> ustring \<Rightarrow> int" where
  "version_at s key domain =
     (case hashes s key (versionKey domain) of Some (Counter n) \<Rightarrow> n | _ \<Rightarrow> 0)"

definition certVersion :: "'b env \<Rightarrow> 'b world \<Rightarrow> ustring \<Rightarrow> int" where
  "certVersion e s domain = version_at s (getKey e (ustr ''settings'')) domain"




section \<open>The CAA check in the words of the specification\<close>






text \<open>
  The example instance with a resolver for which the query for \<open>www.example.com\<close>
  throws and \<open>example.com\<close> has one CAA record, for another CA.
\<close>

definition caa_env :: "jsval env" where
  "caa_env =
     example_env\<lparr>resolveCaa :=
       (\<lambda>d. if d = ustr ''www.example.com'' then None
             else if d = ustr ''example.com'' then Some [Some (ustr ''digicert.com'')]
             else Some [])\<rparr>"

section \<open>Properties of the string operations\<close>










lemma unicode_examples:
  "unicode example_env = latin1"
  "unicode busy_env = latin1"
  "unicode racing_env = latin1"
  "unicode failing_env = latin1"
  "unicode caa_env = latin1"
  by (simp_all add: example_env_def busy_env_def racing_env_def failing_env_def caa_env_def)

lemmas eval_strings =
  ustr_def trim_def latin1_def lowerChar_def isWhiteSpace_def startsWith_def



lemma normalizeDomain_example:
  "normalizeDomain latin1 (ustr ''example.com'') = ustr ''example.com''"
  by (simp add: normalizeDomain_def eval_strings)

section \<open>normalizeDomain\<close>




section \<open>The challenge store\<close>

lemmas eval_keys =
  getKey_def ns_def challengeKey_def dataKey_def safeLockKey_def lastCheckKey_def
  privateKeyKey_def lastErrorKey_def versionKey_def accountKey_def

lemmas eval_redis =
  entry_def expiry_def hashes_def strings_def live_def holds_string_def holds_hash_def

text \<open>
  C3. \<open>setData\<close> passes \<open>this.ttl\<close>, a number of milliseconds, to \<open>EXPIRE\<close>, which
  counts seconds: the key expires \<open>ttl\<close> seconds after the write, a thousand times
  later than the claim says, and it is still there when \<open>ttl\<close> milliseconds have passed.
\<close>

theorem setData_expires_after_ttl_seconds:
  assumes "online s"
  shows "\<exists>s'. setData e cfg s domain token data = (Inr (), s')
           \<and> strings s' (challengeKey e domain token)
               = Some (Blob (msgpack_encode e data), Some (clock s + ttl cfg * 1000))
           \<and> (0 < ttl cfg \<longrightarrow>
                live (s'\<lparr>clock := clock s + ttl cfg\<rparr>) (challengeKey e domain token) \<noteq> None)"
  using assms by (simp add: setData_def multi_set_expire_def live_def strings_def)

theorem setData_expires_after_ttl_seconds_witness:
  "ttl None = 7200000
   \<and> (\<exists>s'. setData example_env None (example_world [] 0) (ustr ''example.com'') (ustr ''TKN'') Null
              = (Inr (), s')
          \<and> strings s' (challengeKey example_env (ustr ''example.com'') (ustr ''TKN''))
              = Some (Blob Null, Some 7200000000)
          \<and> live (s'\<lparr>clock := 7200000\<rparr>)
               (challengeKey example_env (ustr ''example.com'') (ustr ''TKN'')) \<noteq> None)"
proof -
  have on: "online (example_world [] 0)" by (simp add: example_world_def)
  have t: "ttl None = 7200000" by (simp add: ttl_def DEFAULT_TTL_def)
  from setData_expires_after_ttl_seconds [OF on, of example_env None "ustr ''example.com''"
      "ustr ''TKN''" Null] t
  show ?thesis by (simp add: example_world_def example_env_def)
qed

text \<open>
  C8, as the claim states it, fails: the error that \<open>set\<close> throws for an unknown
  domain has the \<open>responseCode\<close> 404 but no \<open>code\<close> at all, so its machine code is
  not \<open>not_found\<close>.
\<close>

theorem Challenge_set_unknown_domain_has_no_code:
  "fst (Challenge_set example_env None (example_world [] 0) (ustr ''example.com'')
          (ustr ''abc.def'') (ustr ''TKN'')) = Inl domain_not_found
   \<and> code domain_not_found \<noteq> Some (ustr ''not_found'')"
  by (simp add: Challenge_set_def Settings_has_def hexists_def example_world_def
      unicode_examples normalizeDomain_example domain_not_found_def Let_def eval_redis)

text \<open>
  C8, amended: with the store reachable, \<open>set\<close> for a domain whose field
  \<open>domain:<D>:data\<close> is missing writes nothing and fails with the error
  \<open>Domain not found\<close>, whose \<open>responseCode\<close> is 404 (or, if the key of the
  settings hash holds a string, with the error of the server for that, and writes
  nothing either); when the field is there it stores
  the record \<open>{acme: {token, secret: {value, created, expires}}}\<close> under the
  challenge key, with \<open>created\<close> the current time and \<open>expires\<close> that time plus
  \<open>ttl\<close>, and returns true.
\<close>

theorem Challenge_set_spec:
  assumes "online s"
  shows "Challenge_set e cfg s altname keyAuthorization token =
           (if holds_string s (getKey e (ustr ''settings'')) then (Inl wrongtype_error, s)
            else if hashes s (getKey e (ustr ''settings''))
                      (dataKey (normalizeDomain (unicode e) altname)) = None
            then (Inl domain_not_found, s)
            else (Inr True,
                  s\<lparr>keyspace := (keyspace s)
                      (challengeKey e (normalizeDomain (unicode e) altname) token \<mapsto>
                         (StringValue (Blob (msgpack_encode e
                                  (challenge_record token keyAuthorization (clock s)
                                     (clock s + ttl cfg)))),
                          Some (clock s + ttl cfg * 1000)))\<rparr>))
         \<and> responseCode domain_not_found = Some 404"
  using assms
  by (simp add: Challenge_set_def Settings_has_def hexists_def Let_def setData_def
      multi_set_expire_def bindR_def domain_not_found_def)

theorem Challenge_set_spec_witness:
  "Challenge_set example_env None
     (example_world [(dataKey (ustr ''example.com''), Obj [])] 5)
     (ustr ''example.com'') (ustr ''abc.def'') (ustr ''TKN'')
   = (Inr True,
      (example_world [(dataKey (ustr ''example.com''), Obj [])] 5)
        \<lparr>keyspace := (keyspace (example_world [(dataKey (ustr ''example.com''), Obj [])] 5))
           (challengeKey example_env (ustr ''example.com'') (ustr ''TKN'') \<mapsto>
              (StringValue (Blob (challenge_record (ustr ''TKN'') (ustr ''abc.def'') 5 7200005)),
               Some 7200000005))\<rparr>)"
proof -
  let ?w = "example_world [(dataKey (ustr ''example.com''), Obj [])] 5"
  have on: "online ?w" by (simp add: example_world_def)
  have hash: "\<not> holds_string ?w (getKey example_env (ustr ''settings''))"
    by (simp add: example_world_def example_env_def eval_keys eval_redis ustr_def)
  have there: "hashes ?w (getKey example_env (ustr ''settings''))
                 (dataKey (normalizeDomain (unicode example_env) (ustr ''example.com''))) \<noteq> None"
    unfolding unicode_examples normalizeDomain_example
    by (simp add: example_world_def example_env_def eval_keys eval_redis ustr_def)
  have t: "ttl None = 7200000" by (simp add: ttl_def DEFAULT_TTL_def)
  have c: "clock ?w = 5" by (simp add: example_world_def)
  from Challenge_set_spec [OF on, of example_env None "ustr ''example.com''" "ustr ''abc.def''"
      "ustr ''TKN''"] there hash
  show ?thesis
    by (simp add: t c unicode_examples normalizeDomain_example) (simp add: example_env_def)
qed

section \<open>The settings store\<close>

text \<open>
  C9, as the claim states it, fails for the key \<open>__proto__\<close>: in
  \<open>set({['__proto__']: null})\<close> the assignment \<open>props[key] = msgpack.encode(...)\<close>
  goes to the setter of \<open>Object.prototype\<close> and makes no own property, so that
  \<open>HMSET\<close> is sent without a field and the server rejects it; nothing is stored, and
  \<open>get('__proto__')\<close> returns \<open>data['__proto__']\<close>, which is the prototype of
  \<open>data\<close> and not the value.
\<close>

theorem Settings_set_get_proto_key:
  "Settings_set example_env (example_world [] 0) (Fields [(proto_key, Null)])
     = (Inl arity_error, example_world [] 0)
   \<and> Settings_get example_env (example_world [] 0) [proto_key]
     = Inr (Value (Native (ustr ''Object.prototype'')))"
  by (simp add: Settings_set_def Settings_get_def hmset_def hmgetBuffer_def bindR_def Let_def
      get_prop_def set_prop_def decode_value_def read_data_def example_world_def
      example_env_def eval_redis getKey_def ns_def proto_key_def ustr_def)

text \<open>
  C9, amended. For every key \<open>k\<close> other than \<open>__proto__\<close> and every value that the
  codec takes back to itself, on a reachable store whose key of the settings hash
  does not hold a string, \<open>Settings.set({k: v})\<close> succeeds, and \<open>Settings.get(k)\<close> on
  the store it leaves returns \<open>v\<close>.
\<close>

theorem Settings_set_get_roundtrip:
  assumes "k \<noteq> proto_key" and "online s"
    and "\<not> holds_string s (getKey e (ustr ''settings''))"
    and "msgpack_decode e (msgpack_encode e v) = Some v"
  shows "\<exists>s'. Settings_set e s (Fields [(k, v)]) = (Inr True, s')
           \<and> Settings_get e s' [k] = Inr (Value v)"
  using assms
  by (simp add: Settings_set_def Settings_get_def hmset_def hmgetBuffer_def bindR_def Let_def
      get_prop_def set_prop_def decode_value_def read_data_def set_data_def eval_redis
      split: option.splits)

theorem Settings_set_get_roundtrip_witness:
  "\<exists>s'. Settings_set example_env (example_world [] 0)
           (Fields [(ustr ''k'', Obj [(ustr ''t'', Date 1), (ustr ''n'', Null),
                                      (ustr ''b'', Buf [0, 255])])])
         = (Inr True, s')
       \<and> Settings_get example_env s' [ustr ''k'']
         = Inr (Value (Obj [(ustr ''t'', Date 1), (ustr ''n'', Null),
                            (ustr ''b'', Buf [0, 255])]))"
proof -
  have key: "ustr ''k'' \<noteq> proto_key" by (simp add: proto_key_def ustr_def)
  have on: "online (example_world [] 0)" by (simp add: example_world_def)
  have hash: "\<not> holds_string (example_world [] 0) (getKey example_env (ustr ''settings''))"
    by (simp add: example_world_def example_env_def eval_keys eval_redis ustr_def)
  have rt: "msgpack_decode example_env (msgpack_encode example_env v) = Some v" for v
    by (simp add: example_env_def)
  from Settings_set_get_roundtrip [OF key on hash rt] show ?thesis .
qed

section \<open>routeHandler\<close>

text \<open>
  C7. When the lookup of the challenge throws, \<open>routeHandler\<close> throws a new error
  with the \<open>responseCode\<close> 500, but it assigns the code \<open>ChallengeFail\<close> to the
  error it caught, not to the one it throws: the thrown error has no code. A lookup
  that returns nothing, or a record without \<open>keyAuthorization\<close>, throws
  \<open>ChallengeNotFound\<close> with 404, as the claim says.
\<close>

theorem routeHandler_lookup_outcomes:
  assumes "joi_domain e d" and "token \<noteq> []" and "utf16_length token \<le> 256"
  shows "(fst (Challenge_get e s d token) = Inl err \<longrightarrow>
            fst (routeHandler e s (Some d) token) = Inl challenge_fail
            \<and> code challenge_fail = None
            \<and> responseCode challenge_fail = Some 500)
         \<and> (fst (Challenge_get e s d token) = Inr challenge
              \<and> (\<not> truthy challenge \<or> \<not> truthy (get_prop challenge (ustr ''keyAuthorization'')))
             \<longrightarrow>
               fst (routeHandler e s (Some d) token) = Inl challenge_not_found
               \<and> code challenge_not_found = Some (ustr ''ChallengeNotFound'')
               \<and> responseCode challenge_not_found = Some 404)"
  using assms
  by (cases "Challenge_get e s d token")
     (auto simp: routeHandler_def challenge_fail_def challenge_not_found_def split: sum.splits)

theorem routeHandler_lookup_outcomes_witness:
  "fst (routeHandler example_env ((example_world [] 0)\<lparr>online := False\<rparr>)
          (Some (ustr ''example.com'')) (ustr ''TKN'')) = Inl challenge_fail
   \<and> code challenge_fail = None
   \<and> fst (routeHandler example_env (example_world [] 0)
          (Some (ustr ''example.com'')) (ustr ''TKN'')) = Inl challenge_not_found"
proof -
  have j: "joi_domain example_env (ustr ''example.com'')"
    by (simp add: example_env_def ustr_def)
  have t: "ustr ''TKN'' \<noteq> []" "utf16_length (ustr ''TKN'') \<le> 256"
    by (simp_all add: ustr_def utf16_length_def)
  have down: "fst (Challenge_get example_env ((example_world [] 0)\<lparr>online := False\<rparr>)
                     (ustr ''example.com'') (ustr ''TKN'')) = Inl transport_error"
    by (simp add: Challenge_get_def getData_def getBuffer_def example_world_def Let_def)
  have absent: "fst (Challenge_get example_env (example_world [] 0)
                     (ustr ''example.com'') (ustr ''TKN'')) = Inr Null"
    by (simp add: Challenge_get_def getData_def getBuffer_def example_world_def Let_def
        unicode_examples normalizeDomain_example example_env_def eval_keys eval_redis ustr_def)
  from routeHandler_lookup_outcomes [OF j t, of "(example_world [] 0)\<lparr>online := False\<rparr>"
      transport_error Null] down
    routeHandler_lookup_outcomes [OF j t, of "example_world [] 0" transport_error Null] absent
  show ?thesis by simp
qed

section \<open>getCertificate\<close>

lemmas eval_store =
  Settings_get_def Settings_set_def Settings_has_def hmgetBuffer_def hmset_def hget_def
  hexists_def hincrby_def exists_key_def getBuffer_def del_def multi_set_expire_def
  decode_value_def get_prop_def has_prop_def del_prop_def assign_def props_of_def or_null_def
  version_number_def bindR_def set_prop_def set_data_def read_data_def has_setter_def
  inherited_def object_prototype_names_def got_value_def got_prop_def Settings_get1_def
  proto_key_def eval_redis

lemmas eval_example =
  example_world_def example_env_def record_world_def stored_record_def loaded_record_def

lemma load_example:
  "loadCertificateData example_env (record_world t now) (ustr ''example.com'')
   = Inr (loaded_record t)"
  by (simp add: loadCertificateData_def eval_store eval_keys eval_example ustr_def)

lemma load_busy:
  "loadCertificateData busy_env (record_world t now) (ustr ''example.com'')
   = Inr (loaded_record t)"
  by (simp add: loadCertificateData_def eval_store eval_keys eval_example busy_env_def ustr_def)


lemma validateDomain_busy: "validateDomain busy_env (ustr ''example.com'') = Inr ()"
  by (simp add: validateDomain_def example_env_def busy_env_def normalizeDomain_def eval_strings
      caa_walk.simps Let_def)

lemma loaded_record_props:
  "truthy (loaded_record t)"
  "get_prop (loaded_record t) (ustr ''status'') = Str (ustr ''valid'')"
  "get_prop (loaded_record t) (ustr ''validTo'') = Date t"
  "get_prop (loaded_record t) (ustr ''cert'') = Str (ustr ''CERT'')"
  "get_prop (loaded_record t) (ustr ''privateKey'') = Null"
  by (simp_all add: loaded_record_def get_prop_def ustr_def)

text \<open>
  C5, as the claim states it, fails: with \<open>validTo\<close> equal to the current time (1000)
  \<open>getCertificate\<close> returns the stored record and leaves the state as it is; it does
  not call \<open>acquireCert\<close>, which here would wait for the lock while the clock moves on.
\<close>

theorem getCertificate_validTo_now_returns_record:
  "getCertificate busy_env (record_world 1000 1000) (ustr ''example.com'')
     = (Inr (loaded_record 1000), record_world 1000 1000)
   \<and> getCertificate busy_env (record_world 1000 1000) (ustr ''example.com'')
     \<noteq> acquireCert busy_env (record_world 1000 1000) (normalizeDomain latin1 (ustr ''example.com''))"
proof -
  let ?w = "record_world 1000 1000"
  have c: "clock ?w = 1000" by (simp add: eval_example)
  have get: "getCertificate busy_env ?w (ustr ''example.com'') = (Inr (loaded_record 1000), ?w)"
    by (simp add: getCertificate_def unicode_examples normalizeDomain_example load_busy
        loaded_record_props js_ge_def c)
  have safe: "exists_key ?w (safeLockKey busy_env (ustr ''example.com'')) = Inr False"
    by (simp add: exists_key_def eval_redis eval_example eval_keys ustr_def)
  have acq: "clock (snd (acquireCert busy_env ?w (normalizeDomain latin1 (ustr ''example.com'')))) = 181000"
    by (simp add: acquireCert_def unicode_examples normalizeDomain_example load_busy safe
        validateDomain_busy)
       (simp add: busy_env_def example_env_def c)
  have "getCertificate busy_env ?w (ustr ''example.com'')
          \<noteq> acquireCert busy_env ?w (normalizeDomain latin1 (ustr ''example.com''))"
  proof
    assume "getCertificate busy_env ?w (ustr ''example.com'')
            = acquireCert busy_env ?w (normalizeDomain latin1 (ustr ''example.com''))"
    with get have "snd (acquireCert busy_env ?w (normalizeDomain latin1 (ustr ''example.com''))) = ?w"
      by simp
    with acq c show False by simp
  qed
  with get show ?thesis by simp
qed

text \<open>
  C5, amended: for a stored record whose status is \<open>valid\<close>, \<open>getCertificate\<close> returns
  the record, and does nothing else, when \<open>validTo\<close> is the current time or later;
  only a \<open>validTo\<close> before the current time is treated as expired and passed to
  \<open>acquireCert\<close>.
\<close>

theorem getCertificate_validTo_boundary:
  assumes "loadCertificateData e s (normalizeDomain (unicode e) d) = Inr r"
    and "truthy r"
    and "get_prop r (ustr ''status'') = Str (ustr ''valid'')"
    and "get_prop r (ustr ''validTo'') = Date t"
  shows "getCertificate e s d =
           (if clock s \<le> t then (Inr r, s) else acquireCert e s (normalizeDomain (unicode e) d))"
  using assms by (simp add: getCertificate_def js_ge_def)

theorem getCertificate_validTo_boundary_witness:
  "getCertificate example_env (record_world 1000 1000) (ustr ''example.com'')
   = (Inr (loaded_record 1000), record_world 1000 1000)"
proof -
  have l: "loadCertificateData example_env (record_world 1000 1000)
             (normalizeDomain latin1 (ustr ''example.com'')) = Inr (loaded_record 1000)"
    unfolding normalizeDomain_example by (rule load_example)
  have c: "clock (record_world 1000 1000) = 1000" by (simp add: eval_example)
  have l': "loadCertificateData example_env (record_world 1000 1000)
             (normalizeDomain (unicode example_env) (ustr ''example.com''))
            = Inr (loaded_record 1000)"
    unfolding unicode_examples by (rule l)
  from getCertificate_validTo_boundary [OF l' loaded_record_props(1,2,3)] c
  show ?thesis by simp
qed


section \<open>validateDomain\<close>





section \<open>acquireCert\<close>

lemmas eval_certs =
  acquireCert_def issue_def provision_key_def place_order_def store_cert_def on_failure_def
  getAcmeAccount_def setCertificateData_def split_updates_def loadCertificateData_def
  getCertificate_def concat_chain_def js_gt_def js_ge_def js_lt_def
  RENEW_AFTER_REMAINING_def BLOCK_RENEW_AFTER_ERROR_TTL_def ninety_days_def
  validateDomain_def caa_walk.simps normalizeDomain_def

lemmas eval_all = eval_certs eval_store eval_keys eval_example eval_strings Let_def

text \<open>
  C1. \<open>acquireCert\<close> does not reload the record once it holds the lock: the renewal
  check reads the record that was loaded before the wait. In the race of two
  processes over a certificate with five days left, the first process orders a
  certificate (one order) and stores it, valid for ninety days, which is beyond the
  renewal window; the second process then gets the lock, checks its stale copy, and
  orders again (two orders).
\<close>

theorem acquireCert_checks_stale_record:
  "orders (lock_wait racing_env (record_world five_days 0)) = 1
   \<and> js_gt (get_prop (case loadCertificateData racing_env
                              (lock_wait racing_env (record_world five_days 0))
                              (ustr ''example.com'') of
                         Inl err \<Rightarrow> Undefined
                       | Inr r \<Rightarrow> r) (ustr ''validTo''))
        (clock (lock_wait racing_env (record_world five_days 0)) + RENEW_AFTER_REMAINING)
   \<and> orders (snd (acquireCert racing_env (record_world five_days 0) (ustr ''example.com''))) = 2"
proof -
  have first: "orders (lock_wait racing_env (record_world five_days 0)) = 1"
    by (simp add: racing_env_def five_days_def eval_all)
  have reloaded:
    "get_prop (case loadCertificateData racing_env
                      (lock_wait racing_env (record_world five_days 0))
                      (ustr ''example.com'') of
                 Inl err \<Rightarrow> Undefined
               | Inr r \<Rightarrow> r) (ustr ''validTo'') = Date ninety_days"
    by (simp add: racing_env_def five_days_def eval_all)
  have time: "clock (lock_wait racing_env (record_world five_days 0)) = 0"
    by (simp add: racing_env_def five_days_def eval_all)
  have second:
    "orders (snd (acquireCert racing_env (record_world five_days 0) (ustr ''example.com''))) = 2"
    by (simp add: racing_env_def five_days_def eval_all)
  show ?thesis
    unfolding reloaded time
    using first second by (simp add: js_gt_def ninety_days_def RENEW_AFTER_REMAINING_def)
qed

text \<open>A predicate on the state that each part of a sequence keeps is kept by the sequence.\<close>

lemma bindR_keeps:
  assumes "P (snd m)" and "\<And>a w. P w \<Longrightarrow> P (snd (f a w))"
  shows "P (snd (bindR m f))"
proof (cases m)
  case (Pair r w)
  with assms show ?thesis
    by (cases r) (simp_all add: bindR_def)
qed

text \<open>What \<open>setCertificateData\<close> writes through the settings store.\<close>

lemma keys_put_prop: "fst ` set (put_prop kvs k v) = insert k (fst ` set kvs)"
proof (induction kvs)
  case Nil
  then show ?case by simp
next
  case (Cons kv kvs)
  obtain k' v' where kv: "kv = (k', v')" by (cases kv)
  show ?case
  proof (cases "k' = k")
    case True
    with kv show ?thesis by auto
  next
    case False
    with kv Cons.IH show ?thesis by auto
  qed
qed

lemma keys_set_prop: "fst ` set (set_prop kvs k v) \<subseteq> insert k (fst ` set kvs)"
  by (auto simp: set_prop_def keys_put_prop)

lemma split_updates_keys:
  assumes "split_updates e domain updates = (values3, updates4)"
  shows "fst ` set values3 \<subseteq> {privateKeyKey domain, lastCheckKey domain, lastErrorKey domain}"
proof -
  have step: "fst ` set (if c then set_prop kvs k v else kvs) \<subseteq> insert k A"
    if "fst ` set kvs \<subseteq> A" for c kvs k v and A :: "ustring set"
  proof (cases c)
    case True
    with that keys_set_prop [of kvs k v] show ?thesis by simp blast
  next
    case False
    with that show ?thesis by simp blast
  qed
  have v0: "fst ` set ([] :: (ustring \<times> jsval) list) \<subseteq> {}" by simp
  note one = step [OF v0]
  note two = step [OF one]
  note three = step [OF two]
  from assms have "values3 = fst (split_updates e domain updates)" by simp
  then show ?thesis
    unfolding split_updates_def Let_def fst_conv
    using three by blast
qed

text \<open>
  The two steps of \<open>setCertificateData\<close> after the values are put together: the
  increment, if the update has a \<open>cert\<close>, and the write of the values, which are
  fields of the domain.
\<close>

lemma setCertificateData_cases:
  obtains (fail) err where "setCertificateData e s D updates = (Inl err, s)"
  | (store) values4 where
      "setCertificateData e s D updates =
         bindR (if truthy (get_prop (Obj updates) (ustr ''cert''))
                then hincrby s (getKey e (ustr ''settings'')) (versionKey D) 1
                else (Inr 0, s))
           (\<lambda>_ s1.
              if values4 \<noteq> []
              then bindR (Settings_set e s1 (Fields values4)) (\<lambda>ok s2. (Inr (JBool ok), s2))
              else (Inr Undefined, s1))"
      and "fst ` set values4 \<subseteq> {dataKey D, privateKeyKey D, lastCheckKey D, lastErrorKey D}"
proof -
  obtain values3 updates4 where sp: "split_updates e D updates = (values3, updates4)"
    by (cases "split_updates e D updates")
  let ?vals =
    "if updates4 \<noteq> []
     then (case Settings_get1 e s (dataKey D) of
             Inl err \<Rightarrow> Inl err
           | Inr currentData \<Rightarrow>
               Inr (set_prop values3 (dataKey D)
                      (Obj (assign (if truthy currentData then props_of currentData else [])
                              updates4))))
     else Inr values3"
  have eq: "setCertificateData e s D updates =
       (case ?vals of
          Inl err \<Rightarrow> (Inl err, s)
        | Inr values4 \<Rightarrow>
            bindR (if truthy (get_prop (Obj updates) (ustr ''cert''))
                   then hincrby s (getKey e (ustr ''settings'')) (versionKey D) 1
                   else (Inr 0, s))
              (\<lambda>_ s1.
                 if values4 \<noteq> []
                 then bindR (Settings_set e s1 (Fields values4)) (\<lambda>ok s2. (Inr (JBool ok), s2))
                 else (Inr Undefined, s1)))"
    using sp by (simp add: setCertificateData_def Let_def)
  show thesis
  proof (cases ?vals)
    case (Inl err)
    with eq have "setCertificateData e s D updates = (Inl err, s)" by simp
    then show thesis by (rule fail)
  next
    case (Inr values4)
    have "fst ` set values4 \<subseteq> insert (dataKey D) (fst ` set values3)"
    proof (cases "updates4 \<noteq> []")
      case False
      with Inr show ?thesis by auto
    next
      case True
      with Inr obtain x where "values4 = set_prop values3 (dataKey D) x"
        by (cases "Settings_get1 e s (dataKey D)") auto
      then show ?thesis using keys_set_prop [of values3 "dataKey D" x] by simp
    qed
    with split_updates_keys [OF sp]
    have keys: "fst ` set values4
                \<subseteq> {dataKey D, privateKeyKey D, lastCheckKey D, lastErrorKey D}"
      by blast
    from Inr eq have "setCertificateData e s D updates =
         bindR (if truthy (get_prop (Obj updates) (ustr ''cert''))
                then hincrby s (getKey e (ustr ''settings'')) (versionKey D) 1
                else (Inr 0, s))
           (\<lambda>_ s1.
              if values4 \<noteq> []
              then bindR (Settings_set e s1 (Fields values4)) (\<lambda>ok s2. (Inr (JBool ok), s2))
              else (Inr Undefined, s1))"
      by simp
    then show thesis using keys by (rule store)
  qed
qed

text \<open>
  What the two commands on the settings hash keep, \<open>set\<close> and
  \<open>setCertificateData\<close> keep.
\<close>

lemma Settings_set_keeps:
  assumes "P s" and "\<And>props. P (snd (hmset s (getKey e (ustr ''settings'')) props))"
  shows "P (snd (Settings_set e s args))"
proof (cases args)
  case (Fields kvs)
  then show ?thesis
    unfolding Settings_set_def Let_def
    by (simp add: bindR_keeps [where P = P] assms(2))
next
  case (KeyValue k' v)
  then show ?thesis
    unfolding Settings_set_def Let_def
    by (simp add: bindR_keeps [where P = P] assms(2))
next
  case Other
  with assms(1) show ?thesis by (simp add: Settings_set_def)
qed

lemma setCertificateData_keeps:
  assumes "P s"
    and "\<And>w f n. P w \<Longrightarrow> P (snd (hincrby w (getKey e (ustr ''settings'')) f n))"
    and "\<And>w props. P w \<Longrightarrow> P (snd (hmset w (getKey e (ustr ''settings'')) props))"
  shows "P (snd (setCertificateData e s D updates))"
proof (cases rule: setCertificateData_cases [where e = e and s = s and D = D and updates = updates])
  case (fail err)
  with assms(1) show ?thesis by simp
next
  case (store values4)
  have step1: "P (snd (if truthy (get_prop (Obj updates) (ustr ''cert''))
                    then hincrby s (getKey e (ustr ''settings'')) (versionKey D) 1
                    else (Inr 0, s)))"
    using assms(1,2) by simp
  have step2: "P (snd (if values4 \<noteq> []
                    then bindR (Settings_set e w (Fields values4)) (\<lambda>ok s2. (Inr (JBool ok), s2))
                    else (Inr Undefined, w)))"
    if w: "P w" for a :: int and w
  proof (cases "values4 = []")
    case True
    with w show ?thesis by simp
  next
    case False
    have "P (snd (Settings_set e w (Fields values4)))"
      using w assms(3) [OF w] by (rule Settings_set_keeps [where P = P])
    then have "P (snd (bindR (Settings_set e w (Fields values4))
                         (\<lambda>ok s2. (Inr (JBool ok), s2))))"
      by (rule bindR_keeps [where P = P]) simp
    with False show ?thesis by simp
  qed
  show ?thesis
    unfolding store(1) by (rule bindR_keeps [where P = P, OF step1 step2])
qed

text \<open>The writes of the settings store leave every other key of the server as it is.\<close>

lemma keyspace_hmset: "k \<noteq> key \<Longrightarrow> keyspace (snd (hmset s key props)) k = keyspace s k"
  by (simp add: hmset_def)

lemma keyspace_hincrby: "k \<noteq> key \<Longrightarrow> keyspace (snd (hincrby s key field n)) k = keyspace s k"
  by (simp add: hincrby_def split: option.splits rvalue.splits)

lemma keyspace_setCertificateData:
  assumes "k \<noteq> getKey e (ustr ''settings'')"
  shows "keyspace (snd (setCertificateData e s domain updates)) k = keyspace s k"
  by (rule setCertificateData_keeps [where P = "\<lambda>w. keyspace w k = keyspace s k"])
     (simp_all add: keyspace_hmset [OF assms] keyspace_hincrby [OF assms])

text \<open>The flat keys of an instance are not the key of its settings hash.\<close>

lemma flat_keys_distinct:
  "safeLockKey e d \<noteq> getKey e (ustr ''settings'')"
  "challengeKey e d token \<noteq> getKey e (ustr ''settings'')"
  by (simp_all add: safeLockKey_def challengeKey_def getKey_def ustr_def)

lemma strings_multi_set_expire:
  "online s \<Longrightarrow>
   strings (snd (multi_set_expire s key v n)) key = Some (v, Some (clock s + n * 1000))"
  by (simp add: multi_set_expire_def strings_def)

lemma strings_setCertificateData:
  "strings (snd (setCertificateData e s domain updates)) (safeLockKey e d)
   = strings s (safeLockKey e d)"
  by (simp add: strings_def keyspace_setCertificateData [OF flat_keys_distinct(1)])

text \<open>
  C4, as the claim states it, fails: a failure of the domain validation (here
  \<open>caa_mismatch\<close>) is caught by a \<open>try\<close> of its own, which logs it and returns the
  record; the fail-safe key is not set.
\<close>

theorem acquireCert_validation_failure_sets_no_failsafe:
  "validateDomain caa_env (normalizeDomain latin1 (ustr ''www.example.com''))
     = Inl (caa_mismatch (ustr ''example.com'') (ustr ''www.example.com''))
   \<and> strings (snd (acquireCert caa_env (example_world [] 0) (ustr ''www.example.com'')))
        (safeLockKey caa_env (normalizeDomain latin1 (ustr ''www.example.com''))) = None"
  by (simp add: caa_env_def issuer_def caa_mismatch_def eval_all)

text \<open>
  C4, amended: when the body of the \<open>try\<close> block (steps 5 to 11, entered with the
  lock held) throws and the store is reachable, \<open>lock:safe:<D>\<close> is set to 1 and
  expires \<open>BLOCK_RENEW_AFTER_ERROR_TTL\<close> seconds later, before \<open>acquireCert\<close>
  returns. A failure of the domain validation in step 3 returns the record that was
  loaded and changes nothing.
\<close>

theorem acquireCert_failsafe:
  assumes "loadCertificateData e s (normalizeDomain (unicode e) domain) = Inr existing"
    and "exists_key s (safeLockKey e (normalizeDomain (unicode e) domain)) = Inr False"
  shows "(validateDomain e (normalizeDomain (unicode e) domain) = Inr ()
            \<and> lock_result e = Inr True
            \<and> issue e (lock_wait e s) (normalizeDomain (unicode e) domain) existing = (Inl err, s2)
            \<and> online s2
          \<longrightarrow> strings (snd (acquireCert e s domain)) (safeLockKey e (normalizeDomain (unicode e) domain))
                = Some (Counter 1, Some (clock s2 + BLOCK_RENEW_AFTER_ERROR_TTL * 1000)))
         \<and> (validateDomain e (normalizeDomain (unicode e) domain) = Inl verr
              \<longrightarrow> acquireCert e s domain = (Inr existing, s))"
  using assms
  by (simp add: acquireCert_def on_failure_def Let_def strings_setCertificateData
      strings_multi_set_expire)

theorem acquireCert_failsafe_witness:
  "strings (snd (acquireCert failing_env (record_world five_days 0) (ustr ''example.com'')))
     (safeLockKey failing_env (ustr ''example.com'')) = Some (Counter 1, Some 10000)"
proof -
  let ?w = "record_world five_days 0"
  let ?s2 = "snd (issue failing_env (lock_wait failing_env ?w) (ustr ''example.com'')
                    (loaded_record five_days))"
  have l: "loadCertificateData failing_env ?w (normalizeDomain (unicode failing_env) (ustr ''example.com''))
           = Inr (loaded_record five_days)"
    by (simp add: failing_env_def five_days_def eval_all)
  have x: "exists_key ?w (safeLockKey failing_env (normalizeDomain (unicode failing_env) (ustr ''example.com'')))
           = Inr False"
    by (simp add: failing_env_def eval_all)
  have v: "validateDomain failing_env (normalizeDomain (unicode failing_env) (ustr ''example.com'')) = Inr ()"
    by (simp add: failing_env_def eval_all)
  have k: "lock_result failing_env = Inr True"
    by (simp add: failing_env_def example_env_def)
  have "fst (issue failing_env (lock_wait failing_env ?w) (ustr ''example.com'')
               (loaded_record five_days)) = Inl acme_error"
    by (simp add: failing_env_def five_days_def eval_all)
  then have i: "issue failing_env (lock_wait failing_env ?w)
                  (normalizeDomain (unicode failing_env) (ustr ''example.com'')) (loaded_record five_days)
                = (Inl acme_error, ?s2)"
    by (simp add: unicode_examples normalizeDomain_example prod_eq_iff)
  have o: "online ?s2" "clock ?s2 = 0"
    by (simp_all add: failing_env_def five_days_def eval_all)
  from acquireCert_failsafe [OF l x, of acme_error ?s2] v k i o
  show ?thesis
    by (simp add: unicode_examples normalizeDomain_example BLOCK_RENEW_AFTER_ERROR_TTL_def)
qed


section \<open>The version field\<close>

















































section \<open>certVersion\<close>












end
